theory Spec2Isabelle
  imports Main
begin

section \<open>Values shared by all packages\<close>

text \<open>
  Go's \<open>uint\<close> identifiers are natural numbers: the program never does arithmetic on
  them, it only compares them. A \<open>time.Time\<close> is an instant counted in nanoseconds since
  the Unix epoch and a \<open>time.Duration\<close> is a signed number of nanoseconds.
\<close>

type_synonym uint = nat
type_synonym time = int
type_synonym duration = int

text \<open>
  The errors of the jwt library (golang-jwt/jwt v5) that the program can meet. The library
  wraps the error of the key function in \<open>ErrTokenUnverifiable\<close> and the joined results of
  the claims validator in \<open>ErrTokenInvalidClaims\<close>.
\<close>

datatype claim_error = ErrTokenExpired | ErrTokenNotValidYet

datatype jwt_error =
    ErrTokenMalformed
  | ErrTokenUnverifiable "string option"
  | ErrTokenSignatureInvalid
  | ErrTokenInvalidClaims "claim_error list"
  | ErrInvalidKeyType

text \<open>
  A Go \<open>error\<close> value: \<open>New s\<close> is \<open>errors.New(s)\<close>, \<open>Gorm s\<close> an error of the persistence
  layer with message \<open>s\<close>, \<open>Bcrypt s\<close> an error of the password hasher, \<open>Jwt e\<close> an error
  of the token library.
\<close>

datatype error = New string | Gorm string | Bcrypt string | Jwt jwt_error

fun claim_error_text :: "claim_error \<Rightarrow> string" where
  "claim_error_text ErrTokenExpired = ''token is expired''"
| "claim_error_text ErrTokenNotValidYet = ''token is not valid yet''"

fun join_text :: "string list \<Rightarrow> string" where
  "join_text [] = []"
| "join_text [s] = s"
| "join_text (s # t # ss) = s @ '', '' @ join_text (t # ss)"

fun jwt_error_text :: "jwt_error \<Rightarrow> string" where
  "jwt_error_text ErrTokenMalformed = ''token is malformed''"
| "jwt_error_text (ErrTokenUnverifiable None) = ''token is unverifiable''"
| "jwt_error_text (ErrTokenUnverifiable (Some s)) = ''token is unverifiable: '' @ s"
| "jwt_error_text ErrTokenSignatureInvalid = ''token signature is invalid''"
| "jwt_error_text (ErrTokenInvalidClaims es) =
     ''token has invalid claims: '' @ join_text (map claim_error_text es)"
| "jwt_error_text ErrInvalidKeyType = ''key is of invalid type''"

text \<open>The method \<open>err.Error()\<close>.\<close>

fun Error :: "error \<Rightarrow> string" where
  "Error (New s) = s"
| "Error (Gorm s) = s"
| "Error (Bcrypt s) = s"
| "Error (Jwt e) = jwt_error_text e"

section \<open>Package models\<close>

record Todo =
  ID :: uint
  Title :: string
  Description :: string
  Completed :: bool
  Priority :: string
  DueDate :: "time option"
  UserID :: uint
  CreatedAt :: time
  UpdatedAt :: time
  DeletedAt :: "time option"

text \<open>\<open>UpdateTodoRequest\<close>: every field is a pointer, \<open>None\<close> is the nil pointer.\<close>

record UpdateTodoRequest =
  reqTitle :: "string option"
  reqDescription :: "string option"
  reqCompleted :: "bool option"
  reqPriority :: "string option"
  reqDueDate :: "time option"

record TodoResponse =
  respID :: uint
  respTitle :: string
  respDescription :: string
  respCompleted :: bool
  respPriority :: string
  respDueDate :: "time option"
  respCreatedAt :: time
  respUpdatedAt :: time

definition ToResponse :: "Todo \<Rightarrow> TodoResponse" where
  "ToResponse t =
     \<lparr>respID = ID t, respTitle = Title t, respDescription = Description t,
      respCompleted = Completed t, respPriority = Priority t, respDueDate = DueDate t,
      respCreatedAt = CreatedAt t, respUpdatedAt = UpdatedAt t\<rparr>"

record User =
  uID :: uint
  uEmail :: string
  uPassword :: string
  uCreatedAt :: time
  uUpdatedAt :: time
  uDeletedAt :: "time option"

record UserResponse =
  urID :: uint
  urEmail :: string
  urCreatedAt :: time

definition UserToResponse :: "User \<Rightarrow> UserResponse" where
  "UserToResponse u = \<lparr>urID = uID u, urEmail = uEmail u, urCreatedAt = uCreatedAt u\<rparr>"

section \<open>The database behind the repositories\<close>

text \<open>
  The \<open>gorm.DB\<close> handle, as the repositories see it: the rows of the two tables;
  \<open>failure\<close>, which is \<open>Some m\<close> when the connection is broken, so that every statement
  returns an error with message \<open>m\<close> (the \<open>err != nil\<close> branches of the callers); and
  \<open>violation\<close>, the message with which the database driver in use reports a violated
  unique index (each driver has its own).
\<close>

record DB =
  users :: "User list"
  todos :: "Todo list"
  failure :: "string option"
  violation :: string

subsection \<open>Package repository: \<open>TodoRepository\<close>\<close>

text \<open>
  Gorm adds \<open>deleted_at IS NULL\<close> to every query on a model with a \<open>gorm.DeletedAt\<close> field.
  \<open>First\<close> returns the first matching row in primary-key order; the primary key makes the
  match unique, the model takes the first match of the table.
\<close>

definition FindByIDAndUserID :: "DB \<Rightarrow> uint \<Rightarrow> uint \<Rightarrow> error + Todo option" where
  "FindByIDAndUserID db id' userID =
     (case failure db of
        Some m \<Rightarrow> Inl (Gorm m)
      | None \<Rightarrow>
          Inr (find (\<lambda>t. ID t = id' \<and> UserID t = userID \<and> DeletedAt t = None) (todos db)))"

text \<open>
  \<open>Update\<close> is \<open>db.Save(todo)\<close>: all columns of the row with the todo's primary key are
  written, \<open>updated_at\<close> is set to the current time, in the row and in the struct passed.
  The rows carry the non-zero keys that the database assigned; the service saves a row
  that it has just read.
\<close>

definition TodoRepository_Update :: "DB \<Rightarrow> time \<Rightarrow> Todo \<Rightarrow> error + (Todo \<times> DB)" where
  "TodoRepository_Update db now todo =
     (case failure db of
        Some m \<Rightarrow> Inl (Gorm m)
      | None \<Rightarrow>
          (let todo' = todo\<lparr>UpdatedAt := now\<rparr> in
           Inr (todo',
                db\<lparr>todos :=
                      (if \<exists>t \<in> set (todos db). ID t = ID todo
                       then map (\<lambda>t. if ID t = ID todo then todo' else t) (todos db)
                       else todos db @ [todo'])\<rparr>)))"

text \<open>\<open>Delete\<close> is the soft delete by primary key alone.\<close>

definition TodoRepository_Delete :: "DB \<Rightarrow> time \<Rightarrow> uint \<Rightarrow> error + DB" where
  "TodoRepository_Delete db now id' =
     (case failure db of
        Some m \<Rightarrow> Inl (Gorm m)
      | None \<Rightarrow>
          Inr (db\<lparr>todos :=
                    map (\<lambda>t. if ID t = id' \<and> DeletedAt t = None
                             then t\<lparr>DeletedAt := Some now\<rparr> else t) (todos db)\<rparr>))"

subsection \<open>Package services: \<open>TodoService\<close>\<close>

definition GetByID :: "DB \<Rightarrow> uint \<Rightarrow> uint \<Rightarrow> error + TodoResponse" where
  "GetByID db todoID userID =
     (case FindByIDAndUserID db todoID userID of
        Inl err \<Rightarrow> Inl err
      | Inr None \<Rightarrow> Inl (New ''todo not found'')
      | Inr (Some todo) \<Rightarrow> Inr (ToResponse todo))"

text \<open>The five \<open>if req.X != nil\<close> assignments of \<open>Update\<close>, in the source's order.\<close>

definition applyUpdates :: "UpdateTodoRequest \<Rightarrow> Todo \<Rightarrow> Todo" where
  "applyUpdates req todo =
     (let t1 = (case reqTitle req of None \<Rightarrow> todo | Some v \<Rightarrow> todo\<lparr>Title := v\<rparr>);
          t2 = (case reqDescription req of None \<Rightarrow> t1 | Some v \<Rightarrow> t1\<lparr>Description := v\<rparr>);
          t3 = (case reqCompleted req of None \<Rightarrow> t2 | Some v \<Rightarrow> t2\<lparr>Completed := v\<rparr>);
          t4 = (case reqPriority req of None \<Rightarrow> t3 | Some v \<Rightarrow> t3\<lparr>Priority := v\<rparr>);
          t5 = (case reqDueDate req of None \<Rightarrow> t4 | Some v \<Rightarrow> t4\<lparr>DueDate := Some v\<rparr>)
      in t5)"

text \<open>The service calls return their result and the database they leave behind.\<close>

definition Update ::
  "DB \<Rightarrow> time \<Rightarrow> uint \<Rightarrow> uint \<Rightarrow> UpdateTodoRequest \<Rightarrow> (error + TodoResponse) \<times> DB" where
  "Update db now todoID userID req =
     (case FindByIDAndUserID db todoID userID of
        Inl err \<Rightarrow> (Inl err, db)
      | Inr None \<Rightarrow> (Inl (New ''todo not found''), db)
      | Inr (Some todo) \<Rightarrow>
          (case TodoRepository_Update db now (applyUpdates req todo) of
             Inl err \<Rightarrow> (Inl err, db)
           | Inr (todo', db') \<Rightarrow> (Inr (ToResponse todo'), db')))"

definition Delete :: "DB \<Rightarrow> time \<Rightarrow> uint \<Rightarrow> uint \<Rightarrow> error option \<times> DB" where
  "Delete db now todoID userID =
     (case FindByIDAndUserID db todoID userID of
        Inl err \<Rightarrow> (Some err, db)
      | Inr None \<Rightarrow> (Some (New ''todo not found''), db)
      | Inr (Some todo) \<Rightarrow>
          (case TodoRepository_Delete db now todoID of
             Inl err \<Rightarrow> (Some err, db)
           | Inr db' \<Rightarrow> (None, db')))"

section \<open>Package utils: the response envelope\<close>

record AuthResponse =
  arUser :: UserResponse
  arToken :: string

text \<open>The values the handlers pass as \<open>data interface{}\<close>.\<close>

datatype payload = TodoData TodoResponse | AuthData AuthResponse | UserData UserResponse

record APIError =
  Code :: string
  ErrMessage :: string
  Details :: "string option"

record APIResponse =
  Success :: bool
  Message :: string
  Data :: "payload option"
  Err :: "APIError option"

text \<open>
  What the handler chain has done to a \<open>gin.Context\<close>: the request's \<open>Authorization\<close>
  header (\<open>None\<close> when the request has none), the keys set by \<open>c.Set\<close>, the status and the
  JSON body written (\<open>None\<close> while nothing is written), whether \<open>c.Abort()\<close> was called,
  and whether the handler index has passed the end of the chain (\<open>Done\<close>).
\<close>

datatype any = AnyUint uint | AnyString string

record Context =
  Authorization :: "string option"
  Keys :: "string \<rightharpoonup> any"
  Written :: "(nat \<times> APIResponse option) option"
  Aborted :: bool
  Done :: bool

definition JSON :: "Context \<Rightarrow> nat \<Rightarrow> APIResponse \<Rightarrow> Context" where
  "JSON c statusCode obj = c\<lparr>Written := Some (statusCode, Some obj)\<rparr>"

definition ErrCodeValidation :: string where "ErrCodeValidation = ''VALIDATION_ERROR''"
definition ErrCodeUnauthorized :: string where "ErrCodeUnauthorized = ''UNAUTHORIZED''"
definition ErrCodeNotFound :: string where "ErrCodeNotFound = ''NOT_FOUND''"
definition ErrCodeConflict :: string where "ErrCodeConflict = ''CONFLICT''"
definition ErrCodeInternal :: string where "ErrCodeInternal = ''INTERNAL_ERROR''"
definition ErrCodeBadRequest :: string where "ErrCodeBadRequest = ''BAD_REQUEST''"

definition StatusOK :: nat where "StatusOK = 200"
definition StatusCreated :: nat where "StatusCreated = 201"
definition StatusNoContent :: nat where "StatusNoContent = 204"
definition StatusBadRequest :: nat where "StatusBadRequest = 400"
definition StatusUnauthorized :: nat where "StatusUnauthorized = 401"
definition StatusNotFound :: nat where "StatusNotFound = 404"
definition StatusConflict :: nat where "StatusConflict = 409"
definition StatusInternalServerError :: nat where "StatusInternalServerError = 500"

definition SuccessResponse :: "Context \<Rightarrow> nat \<Rightarrow> string \<Rightarrow> payload \<Rightarrow> Context" where
  "SuccessResponse c statusCode message data =
     JSON c statusCode \<lparr>Success = True, Message = message, Data = Some data, Err = None\<rparr>"

definition ErrorResponse ::
  "Context \<Rightarrow> nat \<Rightarrow> string \<Rightarrow> string \<Rightarrow> string option \<Rightarrow> Context" where
  "ErrorResponse c statusCode code message details =
     JSON c statusCode
       \<lparr>Success = False, Message = [], Data = None,
        Err = Some \<lparr>Code = code, ErrMessage = message, Details = details\<rparr>\<rparr>"

definition ValidationError :: "Context \<Rightarrow> string \<Rightarrow> Context" where
  "ValidationError c details =
     ErrorResponse c StatusBadRequest ErrCodeValidation ''Validation failed'' (Some details)"

definition UnauthorizedError :: "Context \<Rightarrow> string \<Rightarrow> Context" where
  "UnauthorizedError c message =
     ErrorResponse c StatusUnauthorized ErrCodeUnauthorized
       (if message = [] then ''Authentication required'' else message) None"

definition NotFoundError :: "Context \<Rightarrow> string \<Rightarrow> Context" where
  "NotFoundError c resource =
     ErrorResponse c StatusNotFound ErrCodeNotFound (resource @ '' not found'') None"

definition ConflictError :: "Context \<Rightarrow> string \<Rightarrow> Context" where
  "ConflictError c message = ErrorResponse c StatusConflict ErrCodeConflict message None"

definition InternalError :: "Context \<Rightarrow> string \<Rightarrow> Context" where
  "InternalError c message =
     ErrorResponse c StatusInternalServerError ErrCodeInternal
       (if message = [] then ''An internal error occurred'' else message) None"

definition BadRequestError :: "Context \<Rightarrow> string \<Rightarrow> Context" where
  "BadRequestError c message = ErrorResponse c StatusBadRequest ErrCodeBadRequest message None"

definition Created :: "Context \<Rightarrow> string \<Rightarrow> payload \<Rightarrow> Context" where
  "Created c message data = SuccessResponse c StatusCreated message data"

definition OK :: "Context \<Rightarrow> string \<Rightarrow> payload \<Rightarrow> Context" where
  "OK c message data = SuccessResponse c StatusOK message data"

definition NoContent :: "Context \<Rightarrow> Context" where
  "NoContent c = c\<lparr>Written := Some (StatusNoContent, None)\<rparr>"

section \<open>Package handlers: \<open>TodoHandler\<close>\<close>

text \<open>\<open>middleware.GetUserID\<close>: the key must be set and hold a \<open>uint\<close>.\<close>

definition GetUserID :: "Context \<Rightarrow> uint \<times> bool" where
  "GetUserID c =
     (case Keys c ''user_id'' of
        None \<Rightarrow> (0, False)
      | Some (AnyUint n) \<Rightarrow> (n, True)
      | Some (AnyString s) \<Rightarrow> (0, False))"

text \<open>
  \<open>strconv.ParseUint(s, 10, 32)\<close>: a non-empty string of decimal digits whose value fits
  in 32 bits; everything else is an error.
\<close>

definition isDigit :: "char \<Rightarrow> bool" where
  "isDigit ch = (48 \<le> (of_char ch :: nat) \<and> (of_char ch :: nat) \<le> 57)"

definition ParseUint :: "string \<Rightarrow> nat option" where
  "ParseUint s =
     (if s = [] \<or> \<not> list_all isDigit s then None
      else (let n = foldl (\<lambda>a ch. 10 * a + ((of_char ch :: nat) - 48)) 0 s
            in if n < 2 ^ 32 then Some n else None))"

text \<open>
  The handlers take the context left by the middleware, the path parameter \<open>id\<close> and,
  where the body is bound, the result of \<open>c.ShouldBindJSON\<close>: \<open>Inl\<close> the text of the
  binding error, \<open>Inr\<close> the request.
\<close>

definition TodoHandler_GetByID :: "DB \<Rightarrow> Context \<Rightarrow> string \<Rightarrow> Context" where
  "TodoHandler_GetByID db c idParam =
     (case GetUserID c of
        (userID, False) \<Rightarrow> UnauthorizedError c []
      | (userID, True) \<Rightarrow>
          (case ParseUint idParam of
             None \<Rightarrow> BadRequestError c ''Invalid todo ID''
           | Some todoID \<Rightarrow>
               (case GetByID db todoID userID of
                  Inl err \<Rightarrow> NotFoundError c ''Todo''
                | Inr todo \<Rightarrow> OK c ''Todo retrieved'' (TodoData todo))))"

definition TodoHandler_Update ::
  "DB \<Rightarrow> time \<Rightarrow> Context \<Rightarrow> string \<Rightarrow> string + UpdateTodoRequest \<Rightarrow> Context \<times> DB" where
  "TodoHandler_Update db now c idParam bound =
     (case GetUserID c of
        (userID, False) \<Rightarrow> (UnauthorizedError c [], db)
      | (userID, True) \<Rightarrow>
          (case ParseUint idParam of
             None \<Rightarrow> (BadRequestError c ''Invalid todo ID'', db)
           | Some todoID \<Rightarrow>
               (case bound of
                  Inl details \<Rightarrow> (ValidationError c details, db)
                | Inr req \<Rightarrow>
                    (case Update db now todoID userID req of
                       (Inl err, db') \<Rightarrow>
                         if Error err = ''todo not found''
                         then (NotFoundError c ''Todo'', db')
                         else (InternalError c ''Failed to update todo'', db')
                     | (Inr todo, db') \<Rightarrow>
                         (OK c ''Todo updated successfully'' (TodoData todo), db')))))"

definition TodoHandler_Delete :: "DB \<Rightarrow> time \<Rightarrow> Context \<Rightarrow> string \<Rightarrow> Context \<times> DB" where
  "TodoHandler_Delete db now c idParam =
     (case GetUserID c of
        (userID, False) \<Rightarrow> (UnauthorizedError c [], db)
      | (userID, True) \<Rightarrow>
          (case ParseUint idParam of
             None \<Rightarrow> (BadRequestError c ''Invalid todo ID'', db)
           | Some todoID \<Rightarrow>
               (case Delete db now todoID userID of
                  (Some err, db') \<Rightarrow>
                    if Error err = ''todo not found''
                    then (NotFoundError c ''Todo'', db')
                    else (InternalError c ''Failed to delete todo'', db')
                | (None, db') \<Rightarrow> (NoContent c, db'))))"

section \<open>Package utils: \<open>JWTManager\<close>\<close>

text \<open>
  \<open>JWTClaims\<close> embeds the library's \<open>RegisteredClaims\<close>; of those the program sets the
  issuer and the three dates, which are pointers (\<open>None\<close> is nil: the claim is absent).
\<close>

record JWTClaims =
  cUserID :: uint
  cEmail :: string
  Issuer :: string
  ExpiresAt :: "time option"
  NotBefore :: "time option"
  IssuedAt :: "time option"

record JWTManager =
  secret :: string
  expiry :: duration
  issuer :: string

definition NewJWTManager :: "string \<Rightarrow> duration \<Rightarrow> string \<Rightarrow> JWTManager" where
  "NewJWTManager secret' expiry' issuer' =
     \<lparr>secret = secret', expiry = expiry', issuer = issuer'\<rparr>"

subsection \<open>The libraries the program calls\<close>

text \<open>
  The byte-level work of the external libraries is a parameter of the model:
  \<^item> \<open>SigningString alg claims\<close> is the library's serialisation of the header with that
    \<open>alg\<close> and of the claims (the first two segments of a token, joined by a dot);
  \<open>EncodeSegment\<close> and \<open>DecodeSegment\<close> are its base64url coding of the signature;
  \<^item> \<open>HMAC alg key text\<close> is the message authentication code of \<open>text\<close> under \<open>key\<close>;
  \<^item> \<open>Decode s\<close> splits a token string into its three segments and decodes the first two:
    \<open>None\<close> when the string is malformed, otherwise the signed text, the header's
    \<open>alg\<close> (if it has one), the claims and the third segment;
  \<^item> \<open>GenerateFromPassword\<close> and \<open>CompareHashAndPassword\<close> are bcrypt's; the latter
    returns \<open>None\<close> (a nil error) when the password matches the hash.
\<close>

record Lib =
  SigningString :: "string \<Rightarrow> JWTClaims \<Rightarrow> string"
  EncodeSegment :: "string \<Rightarrow> string"
  DecodeSegment :: "string \<Rightarrow> string option"
  HMAC :: "string \<Rightarrow> string \<Rightarrow> string \<Rightarrow> string"
  Decode :: "string \<Rightarrow> (string \<times> string option \<times> JWTClaims \<times> string) option"
  GenerateFromPassword :: "string \<Rightarrow> error + string"
  CompareHashAndPassword :: "string \<Rightarrow> string \<Rightarrow> error option"

text \<open>
  The signing methods the library registers: the HMAC family, and the others
  (RSA, RSA-PSS, ECDSA, EdDSA, none).
\<close>

datatype SigningMethod = SigningMethodHMAC string | SigningMethodOther string

definition GetSigningMethod :: "string \<Rightarrow> SigningMethod option" where
  "GetSigningMethod alg =
     (if alg \<in> set [''HS256'', ''HS384'', ''HS512''] then Some (SigningMethodHMAC alg)
      else if alg \<in> set [''RS256'', ''RS384'', ''RS512'', ''PS256'', ''PS384'', ''PS512'',
                          ''ES256'', ''ES384'', ''ES512'', ''EdDSA'', ''none'']
      then Some (SigningMethodOther alg)
      else None)"

record Token =
  Method :: SigningMethod
  Claims :: JWTClaims
  Signature :: string
  Valid :: bool

text \<open>
  \<open>jwt.NewNumericDate\<close> truncates the instant to the library's \<open>TimePrecision\<close>, which is
  one second unless the program changes it (this one does not).
\<close>

definition TimePrecision :: duration where
  "TimePrecision = 1000000000"

definition NewNumericDate :: "time \<Rightarrow> time" where
  "NewNumericDate t = t - t mod TimePrecision"

text \<open>
  \<open>token.SignedString(key)\<close>: the signed text, a dot and the encoded signature. The HMAC
  methods accept a byte-slice key, the other methods reject it.
\<close>

definition SignedString :: "Lib \<Rightarrow> SigningMethod \<Rightarrow> JWTClaims \<Rightarrow> string \<Rightarrow> error + string" where
  "SignedString L m claims key =
     (case m of
        SigningMethodHMAC alg \<Rightarrow>
          (let text = SigningString L alg claims
           in Inr (text @ ''.'' @ EncodeSegment L (HMAC L alg key text)))
      | SigningMethodOther alg \<Rightarrow> Inl (Jwt ErrInvalidKeyType))"

text \<open>
  \<open>GenerateToken\<close> calls \<open>time.Now()\<close> three times: for expires-at, then for issued-at,
  then for not-before. The three readings of the clock are given in that order.
\<close>

type_synonym readings = "time \<times> time \<times> time"

definition newClaims :: "JWTManager \<Rightarrow> readings \<Rightarrow> uint \<Rightarrow> string \<Rightarrow> JWTClaims" where
  "newClaims j clock userID email =
     (case clock of
        (now1, now2, now3) \<Rightarrow>
          \<lparr>cUserID = userID, cEmail = email, Issuer = issuer j,
           ExpiresAt = Some (NewNumericDate (now1 + expiry j)),
           NotBefore = Some (NewNumericDate now3),
           IssuedAt = Some (NewNumericDate now2)\<rparr>)"

definition GenerateToken ::
  "Lib \<Rightarrow> JWTManager \<Rightarrow> readings \<Rightarrow> uint \<Rightarrow> string \<Rightarrow> error + string" where
  "GenerateToken L j clock userID email =
     SignedString L (SigningMethodHMAC ''HS256'') (newClaims j clock userID email) (secret j)"

text \<open>
  The library's validator with its default options: the token is expired unless
  \<open>now < exp\<close>, and not valid yet when \<open>now < nbf\<close>; an absent claim passes; issued-at is
  not checked. All failures are collected.
\<close>

definition Validate :: "time \<Rightarrow> JWTClaims \<Rightarrow> claim_error list" where
  "Validate now claims =
     (case ExpiresAt claims of
        None \<Rightarrow> []
      | Some exp \<Rightarrow> if now < exp then [] else [ErrTokenExpired])
     @ (case NotBefore claims of
          None \<Rightarrow> []
        | Some nbf \<Rightarrow> if now < nbf then [ErrTokenNotValidYet] else [])"

text \<open>
  \<open>method.Verify(text, sig, key)\<close>: an HMAC method recomputes the code and compares.
\<close>

definition Verify :: "Lib \<Rightarrow> SigningMethod \<Rightarrow> string \<Rightarrow> string \<Rightarrow> string \<Rightarrow> bool" where
  "Verify L m text sig key =
     (case m of
        SigningMethodHMAC alg \<Rightarrow> sig = HMAC L alg key text
      | SigningMethodOther alg \<Rightarrow> False)"

text \<open>
  \<open>jwt.ParseWithClaims\<close>, in the library's order: decode the segments, look the signing
  method up, decode the signature, ask the key function for the key, verify the
  signature, validate the claims at the current time.
\<close>

definition ParseWithClaims ::
  "Lib \<Rightarrow> (Token \<Rightarrow> error + string) \<Rightarrow> time \<Rightarrow> string \<Rightarrow> error + Token" where
  "ParseWithClaims L keyFunc now tokenString =
     (case Decode L tokenString of
        None \<Rightarrow> Inl (Jwt ErrTokenMalformed)
      | Some (text, None, claims, seg) \<Rightarrow> Inl (Jwt (ErrTokenUnverifiable None))
      | Some (text, Some alg, claims, seg) \<Rightarrow>
          (case GetSigningMethod alg of
             None \<Rightarrow> Inl (Jwt (ErrTokenUnverifiable None))
           | Some m \<Rightarrow>
               (case DecodeSegment L seg of
                  None \<Rightarrow> Inl (Jwt ErrTokenMalformed)
                | Some sig \<Rightarrow>
                    (let token = \<lparr>Method = m, Claims = claims, Signature = sig, Valid = False\<rparr>
                     in case keyFunc token of
                          Inl err \<Rightarrow> Inl (Jwt (ErrTokenUnverifiable (Some (Error err))))
                        | Inr key \<Rightarrow>
                            if \<not> Verify L m text sig key
                            then Inl (Jwt ErrTokenSignatureInvalid)
                            else (case Validate now claims of
                                    [] \<Rightarrow> Inr (token\<lparr>Valid := True\<rparr>)
                                  | e # es \<Rightarrow> Inl (Jwt (ErrTokenInvalidClaims (e # es))))))))"

text \<open>The key function that \<open>ValidateToken\<close> passes to the parser.\<close>

definition keyFunc :: "JWTManager \<Rightarrow> Token \<Rightarrow> error + string" where
  "keyFunc j token =
     (case Method token of
        SigningMethodHMAC alg \<Rightarrow> Inr (secret j)
      | SigningMethodOther alg \<Rightarrow> Inl (New ''invalid signing method''))"

definition ValidateToken :: "Lib \<Rightarrow> JWTManager \<Rightarrow> time \<Rightarrow> string \<Rightarrow> error + JWTClaims" where
  "ValidateToken L j now tokenString =
     (case ParseWithClaims L (keyFunc j) now tokenString of
        Inl err \<Rightarrow> Inl err
      | Inr token \<Rightarrow>
          if \<not> Valid token then Inl (New ''invalid token'') else Inr (Claims token))"

section \<open>Package middleware: \<open>AuthMiddleware\<close>\<close>

text \<open>\<open>c.GetHeader("Authorization")\<close> is the empty string when the header is absent.\<close>

definition GetHeader :: "Context \<Rightarrow> string" where
  "GetHeader c = (case Authorization c of None \<Rightarrow> [] | Some v \<Rightarrow> v)"

text \<open>
  \<open>strings.SplitN(s, " ", 2)\<close>: the text before the first space and the text after it, or
  the string alone when it has no space.
\<close>

definition SplitN :: "string \<Rightarrow> string list" where
  "SplitN s =
     (case dropWhile (\<lambda>ch. ch \<noteq> CHR '' '') s of
        [] \<Rightarrow> [s]
      | sp # rest \<Rightarrow> [takeWhile (\<lambda>ch. ch \<noteq> CHR '' '') s, rest])"

text \<open>
  \<open>strings.ToLower\<close> on the bytes of the string: the letters A to Z are mapped to a to z.
  (Go also maps letters outside ASCII; none of them becomes a letter of the word
  the result is compared with.)
\<close>

definition toLowerChar :: "char \<Rightarrow> char" where
  "toLowerChar ch =
     (case map_of (zip ''ABCDEFGHIJKLMNOPQRSTUVWXYZ'' ''abcdefghijklmnopqrstuvwxyz'') ch of
        None \<Rightarrow> ch
      | Some l \<Rightarrow> l)"

definition ToLower :: "string \<Rightarrow> string" where
  "ToLower s = map toLowerChar s"

definition Set :: "Context \<Rightarrow> string \<Rightarrow> any \<Rightarrow> Context" where
  "Set c k v = c\<lparr>Keys := (Keys c)(k \<mapsto> v)\<rparr>"

definition Abort :: "Context \<Rightarrow> Context" where
  "Abort c = c\<lparr>Aborted := True\<rparr>"

text \<open>
  How gin runs a chain of handlers. A handler is given what \<open>c.Next()\<close> does for it, and
  the context. The engine calls the handlers one after the other for as long as the
  handler index is inside the chain: \<open>c.Abort()\<close> moves the index beyond it, and so does
  a call of \<open>c.Next()\<close>, which runs the remaining handlers itself. A handler that returns
  without either is followed by the next one.
\<close>

type_synonym HandlerFunc = "(Context \<Rightarrow> Context) \<Rightarrow> Context \<Rightarrow> Context"

fun runChain :: "HandlerFunc list \<Rightarrow> Context \<Rightarrow> Context" where
  "runChain [] c = c"
| "runChain (h # hs) c =
     (if Aborted c \<or> Done c then c
      else runChain hs (h (\<lambda>c'. (runChain hs c')\<lparr>Done := True\<rparr>) c))"

text \<open>
  The middleware. \<open>next\<close> is what \<open>c.Next()\<close> does; on the three rejecting paths the
  function writes the response, calls \<open>c.Abort()\<close> and returns.
\<close>

definition AuthMiddleware ::
  "Lib \<Rightarrow> JWTManager \<Rightarrow> time \<Rightarrow> (Context \<Rightarrow> Context) \<Rightarrow> Context \<Rightarrow> Context" where
  "AuthMiddleware L jwtManager now next c =
     (let authHeader = GetHeader c in
      if authHeader = [] then Abort (UnauthorizedError c ''Authorization header required'')
      else
        (case SplitN authHeader of
           [scheme, tokenString] \<Rightarrow>
             if ToLower scheme \<noteq> ''bearer''
             then Abort (UnauthorizedError c
                          ''Invalid authorization format. Use: Bearer <token>'')
             else
               (case ValidateToken L jwtManager now tokenString of
                  Inl err \<Rightarrow> Abort (UnauthorizedError c ''Invalid or expired token'')
                | Inr claims \<Rightarrow>
                    next (Set (Set c ''user_id'' (AnyUint (cUserID claims)))
                              ''user_email'' (AnyString (cEmail claims))))
         | _ \<Rightarrow> Abort (UnauthorizedError c
                         ''Invalid authorization format. Use: Bearer <token>'')))"

section \<open>Package repository: \<open>UserRepository\<close>\<close>

text \<open>
  Modelled from the spec: the source of \<open>UserRepository\<close> (\<open>ExistsByEmail\<close>,
  \<open>FindByEmail\<close>, \<open>Create\<close>) is not among the files. The spec describes the Credential
  Store as a store keyed by identifier with a unique index on the email, exposing
  \<open>exists_by_email\<close>, \<open>find_by_email\<close> and \<open>insert\<close>, where the uniqueness of the email
  is enforced by the persistence layer. An absent row is \<open>nil\<close> without error, as
  \<open>Login\<close> expects and as \<open>TodoRepository\<close> does.
\<close>

definition ExistsByEmail :: "DB \<Rightarrow> string \<Rightarrow> error + bool" where
  "ExistsByEmail db email =
     (case failure db of
        Some m \<Rightarrow> Inl (Gorm m)
      | None \<Rightarrow> Inr (\<exists>u \<in> set (users db). uEmail u = email))"

definition FindByEmail :: "DB \<Rightarrow> string \<Rightarrow> error + User option" where
  "FindByEmail db email =
     (case failure db of
        Some m \<Rightarrow> Inl (Gorm m)
      | None \<Rightarrow> Inr (find (\<lambda>u. uEmail u = email) (users db)))"

text \<open>
  Modelled from the spec: the uniqueness-violation error with which the persistence
  layer refuses a second row with the same email. Its text is the driver's.
\<close>

definition ErrDuplicatedKey :: "DB \<Rightarrow> error" where
  "ErrDuplicatedKey db = Gorm (violation db)"

text \<open>
  Modelled from the spec: \<open>insert\<close> assigns the identifier (one more than the largest in
  the table) and the timestamps, and fails on an email that the table already holds.
\<close>

definition nextUserID :: "DB \<Rightarrow> uint" where
  "nextUserID db = Suc (foldr max (map uID (users db)) 0)"

definition UserRepository_Create :: "DB \<Rightarrow> time \<Rightarrow> User \<Rightarrow> error + (User \<times> DB)" where
  "UserRepository_Create db now user =
     (case failure db of
        Some m \<Rightarrow> Inl (Gorm m)
      | None \<Rightarrow>
          if \<exists>u \<in> set (users db). uEmail u = uEmail user then Inl (ErrDuplicatedKey db)
          else (let user' = user\<lparr>uID := nextUserID db, uCreatedAt := now, uUpdatedAt := now\<rparr>
                in Inr (user', db\<lparr>users := users db @ [user']\<rparr>)))"

section \<open>Package services: \<open>AuthService\<close>\<close>

record RegisterRequest =
  rEmail :: string
  rPassword :: string

record LoginRequest =
  lEmail :: string
  lPassword :: string

text \<open>
  What \<open>Register\<close> does to the world, in the order in which it does it: the insert of a
  user, the signing of a token for a user.
\<close>

datatype event = Inserted User | Issued uint string

text \<open>
  \<open>Register\<close> in its two parts: the check that the email is free (\<open>None\<close>: it is), and
  what follows it (hash, insert, token). \<open>now\<close> is the time of the insert, \<open>clock\<close> the
  readings of \<open>GenerateToken\<close>.
\<close>

definition Register_precheck :: "DB \<Rightarrow> RegisterRequest \<Rightarrow> error option" where
  "Register_precheck db req =
     (case ExistsByEmail db (rEmail req) of
        Inl err \<Rightarrow> Some err
      | Inr exists \<Rightarrow> if exists then Some (New ''email already registered'') else None)"

text \<open>
  The struct literal \<open>&models.User{Email: ..., Password: ...}\<close>; the other fields have
  their zero values until the insert sets them.
\<close>

definition newUser :: "string \<Rightarrow> string \<Rightarrow> User" where
  "newUser email hashedPassword =
     \<lparr>uID = 0, uEmail = email, uPassword = hashedPassword,
      uCreatedAt = 0, uUpdatedAt = 0, uDeletedAt = None\<rparr>"

definition Register_persist ::
  "Lib \<Rightarrow> JWTManager \<Rightarrow> time \<Rightarrow> readings \<Rightarrow> DB \<Rightarrow> RegisterRequest \<Rightarrow>
   (error + AuthResponse) \<times> DB \<times> event list" where
  "Register_persist L j now clock db req =
     (case GenerateFromPassword L (rPassword req) of
        Inl err \<Rightarrow> (Inl err, db, [])
      | Inr hashedPassword \<Rightarrow>
          (case UserRepository_Create db now (newUser (rEmail req) hashedPassword) of
             Inl err \<Rightarrow> (Inl err, db, [])
           | Inr (user, db') \<Rightarrow>
               (case GenerateToken L j clock (uID user) (uEmail user) of
                  Inl err \<Rightarrow> (Inl err, db', [Inserted user])
                | Inr token \<Rightarrow>
                    (Inr \<lparr>arUser = UserToResponse user, arToken = token\<rparr>, db',
                     [Inserted user, Issued (uID user) token]))))"

text \<open>
  A request is not alone with the database: \<open>meanwhile\<close> is what happens to it between
  the check and the insert (the writes of requests served at the same time, the loss of
  the connection). For a request served alone it is the identity.
\<close>

definition Register ::
  "Lib \<Rightarrow> JWTManager \<Rightarrow> time \<Rightarrow> readings \<Rightarrow> (DB \<Rightarrow> DB) \<Rightarrow> DB \<Rightarrow> RegisterRequest \<Rightarrow>
   (error + AuthResponse) \<times> DB \<times> event list" where
  "Register L j now clock meanwhile db req =
     (case Register_precheck db req of
        Some err \<Rightarrow> (Inl err, db, [])
      | None \<Rightarrow> Register_persist L j now clock (meanwhile db) req)"

definition Login ::
  "Lib \<Rightarrow> JWTManager \<Rightarrow> readings \<Rightarrow> DB \<Rightarrow> LoginRequest \<Rightarrow> error + AuthResponse" where
  "Login L j clock db req =
     (case FindByEmail db (lEmail req) of
        Inl err \<Rightarrow> Inl err
      | Inr None \<Rightarrow> Inl (New ''invalid email or password'')
      | Inr (Some user) \<Rightarrow>
          (case CompareHashAndPassword L (uPassword user) (lPassword req) of
             Some err \<Rightarrow> Inl (New ''invalid email or password'')
           | None \<Rightarrow>
               (case GenerateToken L j clock (uID user) (uEmail user) of
                  Inl err \<Rightarrow> Inl err
                | Inr token \<Rightarrow> Inr \<lparr>arUser = UserToResponse user, arToken = token\<rparr>)))"

section \<open>Package handlers: \<open>AuthHandler\<close>\<close>

text \<open>What the \<open>Register\<close> handler writes for a result of the service.\<close>

definition Register_respond :: "Context \<Rightarrow> error + AuthResponse \<Rightarrow> Context" where
  "Register_respond c result =
     (case result of
        Inl err \<Rightarrow>
          if Error err = ''email already registered'' then ConflictError c (Error err)
          else InternalError c ''Failed to register user''
      | Inr response \<Rightarrow> Created c ''User registered successfully'' (AuthData response))"

definition AuthHandler_Register ::
  "Lib \<Rightarrow> JWTManager \<Rightarrow> time \<Rightarrow> readings \<Rightarrow> (DB \<Rightarrow> DB) \<Rightarrow> DB \<Rightarrow> Context \<Rightarrow>
   string + RegisterRequest \<Rightarrow> Context \<times> DB" where
  "AuthHandler_Register L j now clock meanwhile db c bound =
     (case bound of
        Inl details \<Rightarrow> (ValidationError c details, db)
      | Inr req \<Rightarrow>
          (case Register L j now clock meanwhile db req of
             (result, db', events) \<Rightarrow> (Register_respond c result, db')))"

definition AuthHandler_Login ::
  "Lib \<Rightarrow> JWTManager \<Rightarrow> readings \<Rightarrow> DB \<Rightarrow> Context \<Rightarrow> string + LoginRequest \<Rightarrow> Context" where
  "AuthHandler_Login L j clock db c bound =
     (case bound of
        Inl details \<Rightarrow> ValidationError c details
      | Inr req \<Rightarrow>
          (case Login L j clock db req of
             Inl err \<Rightarrow> UnauthorizedError c (Error err)
           | Inr response \<Rightarrow> OK c ''Login successful'' (AuthData response)))"

section \<open>Notions used to state the properties\<close>

text \<open>
  What the round trip needs from the library, for the claims at hand: the decoder
  gives back what the encoder was given. (The real codec is JSON under base64url, which
  decodes its own output.)
\<close>

definition library_roundtrip :: "Lib \<Rightarrow> string \<Rightarrow> JWTClaims \<Rightarrow> bool" where
  "library_roundtrip L key claims =
     (let text = SigningString L ''HS256'' claims;
          seg = EncodeSegment L (HMAC L ''HS256'' key text)
      in Decode L (text @ ''.'' @ seg) = Some (text, Some ''HS256'', claims, seg)
         \<and> DecodeSegment L seg = Some (HMAC L ''HS256'' key text))"

text \<open>
  The four causes for which the spec has a token rejected, read off a token string:
  its encoding is malformed; its header names no method of the HMAC family; its
  signature is not the code of the signed text under the secret; the current time is
  outside the window of its claims.
\<close>

datatype cause = Malformed | WrongFamily | SignatureMismatch | OutsideWindow

fun has_cause :: "Lib \<Rightarrow> JWTManager \<Rightarrow> time \<Rightarrow> string \<Rightarrow> cause \<Rightarrow> bool" where
  "has_cause L j now s Malformed =
     (case Decode L s of
        None \<Rightarrow> True
      | Some (text, alg, claims, seg) \<Rightarrow> DecodeSegment L seg = None)"
| "has_cause L j now s WrongFamily =
     (case Decode L s of
        None \<Rightarrow> False
      | Some (text, None, claims, seg) \<Rightarrow> True
      | Some (text, Some alg, claims, seg) \<Rightarrow>
          (case GetSigningMethod alg of
             Some (SigningMethodHMAC a) \<Rightarrow> False
           | _ \<Rightarrow> True))"
| "has_cause L j now s SignatureMismatch =
     (case Decode L s of
        None \<Rightarrow> False
      | Some (text, None, claims, seg) \<Rightarrow> False
      | Some (text, Some alg, claims, seg) \<Rightarrow>
          (case DecodeSegment L seg of
             None \<Rightarrow> False
           | Some sig \<Rightarrow> sig \<noteq> HMAC L alg (secret j) text))"
| "has_cause L j now s OutsideWindow =
     (case Decode L s of
        None \<Rightarrow> False
      | Some (text, alg, claims, seg) \<Rightarrow>
          (case NotBefore claims of None \<Rightarrow> False | Some nbf \<Rightarrow> now < nbf)
          \<or> (case ExpiresAt claims of None \<Rightarrow> False | Some exp \<Rightarrow> exp \<le> now))"

text \<open>
  The wire format of the spec, letter by letter: the scheme literal \<open>Bearer\<close>, each
  letter in either case, one space, and the token string, which is the rest of the
  header. An absent header carries no token.
\<close>

fun bearer_token :: "string option \<Rightarrow> string option" where
  "bearer_token (Some (c1 # c2 # c3 # c4 # c5 # c6 # sp # tokenString)) =
     (if (c1 = CHR ''B'' \<or> c1 = CHR ''b'') \<and> (c2 = CHR ''E'' \<or> c2 = CHR ''e'')
         \<and> (c3 = CHR ''A'' \<or> c3 = CHR ''a'') \<and> (c4 = CHR ''R'' \<or> c4 = CHR ''r'')
         \<and> (c5 = CHR ''E'' \<or> c5 = CHR ''e'') \<and> (c6 = CHR ''R'' \<or> c6 = CHR ''r'')
         \<and> sp = CHR '' ''
      then Some tokenString else None)"
| "bearer_token header = None"

text \<open>The \<open>Unauthenticated\<close> outcome of the spec, as the client reads it.\<close>

definition Unauthenticated :: "string \<Rightarrow> nat \<times> APIResponse option" where
  "Unauthenticated message =
     (401, Some \<lparr>Success = False, Message = [], Data = None,
                 Err = Some \<lparr>Code = ''UNAUTHORIZED'', ErrMessage = message,
                             Details = None\<rparr>\<rparr>)"

section \<open>A small library and concrete data for the runs\<close>

text \<open>
  A stand-in for the external libraries, used where a property is run on concrete
  data: the serialisation names the claims it knows, the code is a text made of key and
  message, the hash is a prefix before the password.
\<close>

fun splitOn :: "char \<Rightarrow> string \<Rightarrow> string list" where
  "splitOn d [] = [[]]"
| "splitOn d (ch # cs) =
     (if ch = d then [] # splitOn d cs
      else (case splitOn d cs of [] \<Rightarrow> [[ch]] | x # xs \<Rightarrow> (ch # x) # xs))"

definition demoManager :: JWTManager where
  "demoManager = NewJWTManager ''test-secret'' 3600000000000 ''test''"

definition shortManager :: JWTManager where
  "shortManager = NewJWTManager ''test-secret'' 100000000 ''test''"

definition pastManager :: JWTManager where
  "pastManager = NewJWTManager ''test-secret'' (- 1) ''test''"

definition now0 :: time where
  "now0 = 1700000000500000000"

text \<open>Three readings of a clock that does not move between them.\<close>

definition still :: "time \<Rightarrow> readings" where
  "still now = (now, now, now)"

text \<open>
  Three readings on both sides of a whole second: two nanoseconds before it, one
  before it, one after it.
\<close>

definition across :: readings where
  "across = (1700000000999999998, 1700000000999999999, 1700000001000000001)"

definition secondManager :: JWTManager where
  "secondManager = NewJWTManager ''test-secret'' 1000000000 ''test''"

definition demoTable :: "(string \<times> JWTClaims) list" where
  "demoTable =
     [(''A'', newClaims demoManager (still now0) 1 ''alice@example.com''),
      (''B'', newClaims shortManager (still now0) 1 ''alice@example.com''),
      (''C'', newClaims pastManager (still now0) 2 ''bob@example.com''),
      (''D'', newClaims secondManager across 1 ''alice@example.com''),
      (''F'', newClaims demoManager (still (now0 + 9)) 2 ''Alice@Example.com'')]"

definition demoName :: "JWTClaims \<Rightarrow> string" where
  "demoName claims =
     (case find (\<lambda>(n, c). c = claims) demoTable of None \<Rightarrow> ''?'' | Some (n, c) \<Rightarrow> n)"

definition demoDecode :: "string \<Rightarrow> (string \<times> string option \<times> JWTClaims \<times> string) option" where
  "demoDecode s =
     (case splitOn (CHR ''.'') s of
        [h, p, seg] \<Rightarrow>
          (case map_of demoTable p of
             None \<Rightarrow> None
           | Some claims \<Rightarrow> Some (h @ ''.'' @ p, if h = [] then None else Some h, claims, seg))
      | _ \<Rightarrow> None)"

definition demoLib :: Lib where
  "demoLib =
     \<lparr>SigningString = (\<lambda>alg claims. alg @ ''.'' @ demoName claims),
      EncodeSegment = (\<lambda>s. s),
      DecodeSegment = (\<lambda>s. if s = [] then None else Some s),
      HMAC = (\<lambda>alg key text. key @ ''/'' @ filter (\<lambda>ch. ch \<noteq> CHR ''.'') text),
      Decode = demoDecode,
      GenerateFromPassword = (\<lambda>p. Inr (''$2a$10$'' @ p)),
      CompareHashAndPassword =
        (\<lambda>h p. if h = ''$2a$10$'' @ p then None
               else Some (Bcrypt ''hashedPassword is not the hash of the given password''))\<rparr>"

definition emptyContext :: Context where
  "emptyContext =
     \<lparr>Authorization = None, Keys = Map.empty, Written = None, Aborted = False, Done = False\<rparr>"

definition emptyDB :: DB where
  "emptyDB =
     \<lparr>users = [], todos = [], failure = None,
      violation = ''UNIQUE constraint failed: users.email''\<rparr>"

definition aliceRequest :: RegisterRequest where
  "aliceRequest = \<lparr>rEmail = ''alice@example.com'', rPassword = ''password123''\<rparr>"

definition alice :: User where
  "alice = \<lparr>uID = 1, uEmail = ''alice@example.com'', uPassword = ''$2a$10$password123'',
            uCreatedAt = now0, uUpdatedAt = now0, uDeletedAt = None\<rparr>"

definition aliceTodo :: Todo where
  "aliceTodo =
     \<lparr>ID = 7, Title = ''Buy milk'', Description = ''two litres'', Completed = False,
      Priority = ''medium'', DueDate = None, UserID = 1, CreatedAt = now0,
      UpdatedAt = now0, DeletedAt = None\<rparr>"

definition aliceDB :: DB where
  "aliceDB =
     \<lparr>users = [alice], todos = [aliceTodo], failure = None,
      violation = ''UNIQUE constraint failed: users.email''\<rparr>"

text \<open>The same email as alice's, in another case.\<close>

definition capitalRequest :: RegisterRequest where
  "capitalRequest = \<lparr>rEmail = ''Alice@Example.com'', rPassword = ''password123''\<rparr>"

definition capitalAlice :: User where
  "capitalAlice =
     \<lparr>uID = 2, uEmail = ''Alice@Example.com'', uPassword = ''$2a$10$password123'',
      uCreatedAt = now0 + 9, uUpdatedAt = now0 + 9, uDeletedAt = None\<rparr>"

text \<open>
  What a registration of alice, served at the same time and completed first, leaves in
  the database.
\<close>

definition aliceFirst :: "DB \<Rightarrow> DB" where
  "aliceFirst db = db\<lparr>users := users db @ [alice]\<rparr>"

text \<open>An update request with no field supplied.\<close>

definition nilRequest :: UpdateTodoRequest where
  "nilRequest =
     \<lparr>reqTitle = None, reqDescription = None, reqCompleted = None,
      reqPriority = None, reqDueDate = None\<rparr>"

text \<open>A last handler of a chain, which answers with status 200.\<close>

definition okHandler :: HandlerFunc where
  "okHandler next c = c\<lparr>Written := Some (200, None)\<rparr>"

definition completedRequest :: UpdateTodoRequest where
  "completedRequest =
     \<lparr>reqTitle = None, reqDescription = None, reqCompleted = Some True,
      reqPriority = None, reqDueDate = None\<rparr>"

text \<open>The context of a request after the middleware has accepted a token of user 2.\<close>

definition bobContext :: Context where
  "bobContext =
     Set (Set emptyContext ''user_id'' (AnyUint 2)) ''user_email'' (AnyString ''bob@example.com'')"

section \<open>Properties\<close>

subsection \<open>Lemmas shared by the proofs\<close>

lemmas demo_defs = demoLib_def demoDecode_def demoName_def demoTable_def newClaims_def
  demoManager_def shortManager_def pastManager_def secondManager_def NewJWTManager_def
  now0_def still_def across_def NewNumericDate_def TimePrecision_def

lemmas jwt_defs = ValidateToken_def ParseWithClaims_def keyFunc_def Verify_def Validate_def
  GetSigningMethod_def GenerateToken_def SignedString_def

lemmas data_defs = emptyContext_def emptyDB_def aliceRequest_def alice_def aliceTodo_def
  aliceDB_def completedRequest_def nilRequest_def capitalRequest_def capitalAlice_def
  aliceFirst_def bobContext_def Set_def

lemmas response_defs = JSON_def ErrorResponse_def SuccessResponse_def ValidationError_def
  UnauthorizedError_def NotFoundError_def ConflictError_def InternalError_def
  BadRequestError_def Created_def OK_def NoContent_def Abort_def

lemma lookup_misses:
  assumes "failure db = None"
    and "\<forall>t \<in> set (todos db). ID t = todoID \<and> DeletedAt t = None \<longrightarrow> UserID t \<noteq> userID"
  shows "FindByIDAndUserID db todoID userID = Inr None"
  using assms by (auto simp: FindByIDAndUserID_def find_None_iff)

lemma lookup_hits:
  assumes "FindByIDAndUserID db todoID userID = Inr (Some old)"
  shows "failure db = None \<and> old \<in> set (todos db) \<and> ID old = todoID \<and> UserID old = userID
         \<and> DeletedAt old = None"
proof -
  from assms have f: "failure db = None"
    by (auto simp: FindByIDAndUserID_def split: option.splits)
  with assms have "find (\<lambda>t. ID t = todoID \<and> UserID t = userID \<and> DeletedAt t = None) (todos db) = Some old"
    by (simp add: FindByIDAndUserID_def)
  then show ?thesis using f by (auto simp: find_Some_iff)
qed

text \<open>
  Claim C1. When no live todo has both the requested identifier and the caller as owner,
  be it that the identifier is unknown or that its todo belongs to someone else, then
  reading, updating and deleting it all fail with the one error \<open>todo not found\<close>,
  leave the database as it was, and the handlers answer with the same \<open>NotFound\<close>
  response.
\<close>

theorem not_owned_is_not_found:
  assumes "failure db = None"
    and "\<forall>t \<in> set (todos db). ID t = todoID \<and> DeletedAt t = None \<longrightarrow> UserID t \<noteq> userID"
    and "GetUserID c = (userID, True)"
    and "ParseUint idParam = Some todoID"
  shows "FindByIDAndUserID db todoID userID = Inr None
       \<and> GetByID db todoID userID = Inl (New ''todo not found'')
       \<and> Update db now todoID userID req = (Inl (New ''todo not found''), db)
       \<and> Delete db now todoID userID = (Some (New ''todo not found''), db)
       \<and> TodoHandler_GetByID db c idParam = NotFoundError c ''Todo''
       \<and> TodoHandler_Update db now c idParam (Inr req) = (NotFoundError c ''Todo'', db)
       \<and> TodoHandler_Delete db now c idParam = (NotFoundError c ''Todo'', db)"
proof -
  have miss: "FindByIDAndUserID db todoID userID = Inr None"
    using assms(1,2) by (rule lookup_misses)
  have g: "GetByID db todoID userID = Inl (New ''todo not found'')"
    by (simp add: GetByID_def miss)
  have u: "Update db now todoID userID req = (Inl (New ''todo not found''), db)"
    by (simp add: Update_def miss)
  have d: "Delete db now todoID userID = (Some (New ''todo not found''), db)"
    by (simp add: Delete_def miss)
  show ?thesis
    using assms(3,4)
    by (simp add: miss g u d TodoHandler_GetByID_def TodoHandler_Update_def
        TodoHandler_Delete_def)
qed

text \<open>
  The run: user 2 asks for todo 7, which belongs to user 1, and for todo 99, which does
  not exist. Both requests get the same answer.
\<close>

theorem not_owned_is_not_found_witness:
  "failure aliceDB = None \<and> GetUserID bobContext = (2, True)
   \<and> ParseUint ''7'' = Some 7 \<and> ParseUint ''99'' = Some 99
   \<and> GetByID aliceDB 7 1 = Inr (ToResponse aliceTodo)
   \<and> GetByID aliceDB 7 2 = Inl (New ''todo not found'')
   \<and> GetByID aliceDB 99 2 = Inl (New ''todo not found'')
   \<and> TodoHandler_GetByID aliceDB bobContext ''7'' = NotFoundError bobContext ''Todo''
   \<and> TodoHandler_GetByID aliceDB bobContext ''99'' = NotFoundError bobContext ''Todo''
   \<and> TodoHandler_Delete aliceDB now0 bobContext ''7'' = (NotFoundError bobContext ''Todo'', aliceDB)
   \<and> TodoHandler_Delete aliceDB now0 bobContext ''99'' = (NotFoundError bobContext ''Todo'', aliceDB)"
proof -
  have h1: "failure aliceDB = None" by (simp add: data_defs)
  have h2: "\<forall>t \<in> set (todos aliceDB). ID t = 7 \<and> DeletedAt t = None \<longrightarrow> UserID t \<noteq> 2"
    by (simp add: data_defs)
  have h2': "\<forall>t \<in> set (todos aliceDB). ID t = 99 \<and> DeletedAt t = None \<longrightarrow> UserID t \<noteq> 2"
    by (simp add: data_defs)
  have h3: "GetUserID bobContext = (2, True)" by (simp add: GetUserID_def data_defs)
  have h4: "ParseUint ''7'' = Some 7" by (simp add: ParseUint_def isDigit_def)
  have h4': "ParseUint ''99'' = Some 99" by (simp add: ParseUint_def isDigit_def)
  have own: "GetByID aliceDB 7 1 = Inr (ToResponse aliceTodo)"
    by (simp add: GetByID_def FindByIDAndUserID_def data_defs)
  show ?thesis
    using not_owned_is_not_found [OF h1 h2 h3 h4, of now0 completedRequest]
      not_owned_is_not_found [OF h1 h2' h3 h4', of now0 completedRequest] h1 h3 h4 h4' own
    by simp
qed

lemma applyUpdates_frame:
  "ID (applyUpdates req t) = ID t \<and> UserID (applyUpdates req t) = UserID t
   \<and> CreatedAt (applyUpdates req t) = CreatedAt t \<and> UpdatedAt (applyUpdates req t) = UpdatedAt t
   \<and> DeletedAt (applyUpdates req t) = DeletedAt t"
  by (simp add: applyUpdates_def Let_def split: option.splits)

lemma applyUpdates_fields:
  "Title (applyUpdates req t) = (case reqTitle req of None \<Rightarrow> Title t | Some v \<Rightarrow> v)
   \<and> Description (applyUpdates req t) = (case reqDescription req of None \<Rightarrow> Description t | Some v \<Rightarrow> v)
   \<and> Completed (applyUpdates req t) = (case reqCompleted req of None \<Rightarrow> Completed t | Some v \<Rightarrow> v)
   \<and> Priority (applyUpdates req t) = (case reqPriority req of None \<Rightarrow> Priority t | Some v \<Rightarrow> v)
   \<and> DueDate (applyUpdates req t) = (case reqDueDate req of None \<Rightarrow> DueDate t | Some v \<Rightarrow> Some v)"
  by (simp add: applyUpdates_def Let_def split: option.splits)

text \<open>
  Claim C10, as the program has it. A successful \<open>Update\<close> found a live todo \<open>old\<close> with
  the requested identifier and the caller as owner. The todo it stores and returns has
  the same identifier, owner, creation time and deletion mark; each of title,
  description, completed, priority and due date has the value supplied in the request,
  or its prior value when the request's pointer is nil; and its time of last update is
  the time of the save, whatever the request supplies. The rows with other identifiers
  and the users are left as they were.
\<close>

theorem update_frame:
  assumes "Update db now todoID userID req = (Inr resp, db')"
  shows "\<exists>old new.
           FindByIDAndUserID db todoID userID = Inr (Some old)
         \<and> old \<in> set (todos db) \<and> new \<in> set (todos db') \<and> resp = ToResponse new
         \<and> ID new = todoID \<and> ID old = todoID \<and> UserID new = userID \<and> UserID old = userID
         \<and> CreatedAt new = CreatedAt old \<and> DeletedAt new = DeletedAt old
         \<and> UpdatedAt new = now
         \<and> Title new = (case reqTitle req of None \<Rightarrow> Title old | Some v \<Rightarrow> v)
         \<and> Description new = (case reqDescription req of None \<Rightarrow> Description old | Some v \<Rightarrow> v)
         \<and> Completed new = (case reqCompleted req of None \<Rightarrow> Completed old | Some v \<Rightarrow> v)
         \<and> Priority new = (case reqPriority req of None \<Rightarrow> Priority old | Some v \<Rightarrow> v)
         \<and> DueDate new = (case reqDueDate req of None \<Rightarrow> DueDate old | Some v \<Rightarrow> Some v)
         \<and> todos db' = map (\<lambda>t. if ID t = todoID then new else t) (todos db)
         \<and> users db' = users db \<and> failure db' = failure db"
proof -
  from assms obtain old where f: "FindByIDAndUserID db todoID userID = Inr (Some old)"
    by (auto simp: Update_def split: sum.splits option.splits)
  then have o: "failure db = None" "old \<in> set (todos db)" "ID old = todoID" "UserID old = userID"
    using lookup_hits by blast+
  define new where "new = (applyUpdates req old)\<lparr>UpdatedAt := now\<rparr>"
  have idn: "ID (applyUpdates req old) = todoID"
    using applyUpdates_frame [of req old] o(3) by simp
  have ex: "\<exists>t \<in> set (todos db). ID t = todoID" using o(2,3) by blast
  have r: "TodoRepository_Update db now (applyUpdates req old) =
             Inr (new, db\<lparr>todos := map (\<lambda>t. if ID t = todoID then new else t) (todos db)\<rparr>)"
    using ex by (simp add: TodoRepository_Update_def o(1) Let_def new_def idn)
  from assms have res: "resp = ToResponse new"
    and d: "db' = db\<lparr>todos := map (\<lambda>t. if ID t = todoID then new else t) (todos db)\<rparr>"
    by (simp_all add: Update_def f r)
  have mem: "new \<in> set (todos db')"
    using o(2,3) by (force simp: d)
  have fr: "ID new = todoID" "UserID new = userID" "CreatedAt new = CreatedAt old"
    "DeletedAt new = DeletedAt old" "UpdatedAt new = now"
    using applyUpdates_frame [of req old] o(3,4) by (simp_all add: new_def)
  have fl: "Title new = (case reqTitle req of None \<Rightarrow> Title old | Some v \<Rightarrow> v)"
    "Description new = (case reqDescription req of None \<Rightarrow> Description old | Some v \<Rightarrow> v)"
    "Completed new = (case reqCompleted req of None \<Rightarrow> Completed old | Some v \<Rightarrow> v)"
    "Priority new = (case reqPriority req of None \<Rightarrow> Priority old | Some v \<Rightarrow> v)"
    "DueDate new = (case reqDueDate req of None \<Rightarrow> DueDate old | Some v \<Rightarrow> Some v)"
    using applyUpdates_fields [of req old] by (simp_all add: new_def)
  have rest: "todos db' = map (\<lambda>t. if ID t = todoID then new else t) (todos db)"
    "users db' = users db" "failure db' = failure db"
    by (simp_all add: d)
  show ?thesis
    using f o(2,3,4) mem res fr fl rest by blast
qed


text \<open>
  The run: user 1 marks todo 7 as completed and supplies nothing else. The title, the
  description, the priority and the owner of the stored row are the prior ones, and its
  time of last update is the time of the save.
\<close>

theorem update_frame_witness:
  "Update aliceDB (now0 + 5) 7 1 completedRequest =
     (Inr (ToResponse (aliceTodo\<lparr>Completed := True, UpdatedAt := now0 + 5\<rparr>)),
      aliceDB\<lparr>todos := [aliceTodo\<lparr>Completed := True, UpdatedAt := now0 + 5\<rparr>]\<rparr>)
   \<and> (\<exists>old new.
          FindByIDAndUserID aliceDB 7 1 = Inr (Some old)
        \<and> new \<in> set (todos (aliceDB\<lparr>todos := [aliceTodo\<lparr>Completed := True, UpdatedAt := now0 + 5\<rparr>]\<rparr>))
        \<and> ID new = 7 \<and> UserID new = 1 \<and> Title new = Title old
        \<and> Description new = Description old \<and> Priority new = Priority old
        \<and> DueDate new = DueDate old \<and> Completed new = True \<and> UpdatedAt new = now0 + 5)"
proof -
  have h: "Update aliceDB (now0 + 5) 7 1 completedRequest =
     (Inr (ToResponse (aliceTodo\<lparr>Completed := True, UpdatedAt := now0 + 5\<rparr>)),
      aliceDB\<lparr>todos := [aliceTodo\<lparr>Completed := True, UpdatedAt := now0 + 5\<rparr>]\<rparr>)"
    by (simp add: Update_def FindByIDAndUserID_def TodoRepository_Update_def applyUpdates_def
        Let_def data_defs)
  have r: "reqTitle completedRequest = None" "reqDescription completedRequest = None"
    "reqPriority completedRequest = None" "reqDueDate completedRequest = None"
    "reqCompleted completedRequest = Some True"
    by (simp_all add: completedRequest_def)
  from update_frame [OF h] obtain old new where
    "FindByIDAndUserID aliceDB 7 1 = Inr (Some old)"
    "new \<in> set (todos (aliceDB\<lparr>todos := [aliceTodo\<lparr>Completed := True, UpdatedAt := now0 + 5\<rparr>]\<rparr>))"
    "ID new = 7" "UserID new = 1" "UpdatedAt new = now0 + 5"
    "Title new = (case reqTitle completedRequest of None \<Rightarrow> Title old | Some v \<Rightarrow> v)"
    "Description new = (case reqDescription completedRequest of None \<Rightarrow> Description old | Some v \<Rightarrow> v)"
    "Completed new = (case reqCompleted completedRequest of None \<Rightarrow> Completed old | Some v \<Rightarrow> v)"
    "Priority new = (case reqPriority completedRequest of None \<Rightarrow> Priority old | Some v \<Rightarrow> v)"
    "DueDate new = (case reqDueDate completedRequest of None \<Rightarrow> DueDate old | Some v \<Rightarrow> Some v)"
    by blast
  then have "\<exists>old new.
          FindByIDAndUserID aliceDB 7 1 = Inr (Some old)
        \<and> new \<in> set (todos (aliceDB\<lparr>todos := [aliceTodo\<lparr>Completed := True, UpdatedAt := now0 + 5\<rparr>]\<rparr>))
        \<and> ID new = 7 \<and> UserID new = 1 \<and> Title new = Title old
        \<and> Description new = Description old \<and> Priority new = Priority old
        \<and> DueDate new = DueDate old \<and> Completed new = True \<and> UpdatedAt new = now0 + 5"
    unfolding r by (simp only: option.case) blast
  with h show ?thesis by (rule conjI)
qed

text \<open>
  Against claim C10 as stated: an update that supplies no field at all still modifies
  the todo, in the store and in the response: its time of last update.
\<close>

theorem update_frame_counterexample:
  "Update aliceDB (now0 + 5) 7 1 nilRequest =
     (Inr (ToResponse (aliceTodo\<lparr>UpdatedAt := now0 + 5\<rparr>)),
      aliceDB\<lparr>todos := [aliceTodo\<lparr>UpdatedAt := now0 + 5\<rparr>]\<rparr>)
   \<and> todos aliceDB = [aliceTodo]
   \<and> UpdatedAt aliceTodo = now0
   \<and> aliceTodo\<lparr>UpdatedAt := now0 + 5\<rparr> \<noteq> aliceTodo
   \<and> respUpdatedAt (ToResponse (aliceTodo\<lparr>UpdatedAt := now0 + 5\<rparr>)) \<noteq>
       respUpdatedAt (ToResponse aliceTodo)"
proof -
  have u: "Update aliceDB (now0 + 5) 7 1 nilRequest =
     (Inr (ToResponse (aliceTodo\<lparr>UpdatedAt := now0 + 5\<rparr>)),
      aliceDB\<lparr>todos := [aliceTodo\<lparr>UpdatedAt := now0 + 5\<rparr>]\<rparr>)"
    by (simp add: Update_def FindByIDAndUserID_def TodoRepository_Update_def applyUpdates_def
        Let_def data_defs)
  have d: "todos aliceDB = [aliceTodo]" "UpdatedAt aliceTodo = now0"
    "aliceTodo\<lparr>UpdatedAt := now0 + 5\<rparr> \<noteq> aliceTodo"
    "respUpdatedAt (ToResponse (aliceTodo\<lparr>UpdatedAt := now0 + 5\<rparr>)) \<noteq>
       respUpdatedAt (ToResponse aliceTodo)"
    by (simp_all add: data_defs ToResponse_def)
  show ?thesis using u d by simp
qed

text \<open>
  Claim C4. A login with an email that the store does not hold, and a login with an
  email it holds and a password that does not match the stored hash, return the same
  error, and the handler writes the same response for both.
\<close>

theorem login_failures_indistinguishable:
  assumes "FindByEmail db (lEmail unknown) = Inr None"
    and "FindByEmail db (lEmail wrong) = Inr (Some user)"
    and "CompareHashAndPassword L (uPassword user) (lPassword wrong) = Some err"
  shows "Login L j clock db unknown = Inl (New ''invalid email or password'')
       \<and> Login L j clock' db wrong = Inl (New ''invalid email or password'')
       \<and> AuthHandler_Login L j clock db c (Inr unknown) =
           UnauthorizedError c ''invalid email or password''
       \<and> AuthHandler_Login L j clock' db c (Inr wrong) =
           UnauthorizedError c ''invalid email or password''"
proof -
  have l1: "Login L j clock db unknown = Inl (New ''invalid email or password'')"
    by (simp add: Login_def assms(1))
  have l2: "Login L j clock' db wrong = Inl (New ''invalid email or password'')"
    by (simp add: Login_def assms(2,3))
  show ?thesis by (simp add: l1 l2 AuthHandler_Login_def)
qed

text \<open>
  The run: the store holds alice. A login as the unknown bob and a login as alice with a
  wrong password are answered alike; alice's own password logs her in.
\<close>

theorem login_failures_indistinguishable_witness:
  "FindByEmail aliceDB ''bob@example.com'' = Inr None
   \<and> FindByEmail aliceDB ''alice@example.com'' = Inr (Some alice)
   \<and> CompareHashAndPassword demoLib (uPassword alice) ''wrongpassword'' =
       Some (Bcrypt ''hashedPassword is not the hash of the given password'')
   \<and> Login demoLib demoManager (still now0) aliceDB
       \<lparr>lEmail = ''bob@example.com'', lPassword = ''password123''\<rparr> =
       Inl (New ''invalid email or password'')
   \<and> Login demoLib demoManager (still now0) aliceDB
       \<lparr>lEmail = ''alice@example.com'', lPassword = ''wrongpassword''\<rparr> =
       Inl (New ''invalid email or password'')
   \<and> AuthHandler_Login demoLib demoManager (still now0) aliceDB emptyContext
       (Inr \<lparr>lEmail = ''bob@example.com'', lPassword = ''password123''\<rparr>) =
     AuthHandler_Login demoLib demoManager (still now0) aliceDB emptyContext
       (Inr \<lparr>lEmail = ''alice@example.com'', lPassword = ''wrongpassword''\<rparr>)
   \<and> Login demoLib demoManager (still now0) aliceDB
       \<lparr>lEmail = ''alice@example.com'', lPassword = ''password123''\<rparr> =
       Inr \<lparr>arUser = UserToResponse alice, arToken = ''HS256.A.test-secret/HS256A''\<rparr>"
proof -
  have f1: "FindByEmail aliceDB ''bob@example.com'' = Inr None"
    and f2: "FindByEmail aliceDB ''alice@example.com'' = Inr (Some alice)"
    by (simp_all add: FindByEmail_def data_defs)
  have h1: "FindByEmail aliceDB
              (lEmail \<lparr>lEmail = ''bob@example.com'', lPassword = ''password123''\<rparr>) = Inr None"
    using f1 by simp
  have h2: "FindByEmail aliceDB
              (lEmail \<lparr>lEmail = ''alice@example.com'', lPassword = ''wrongpassword''\<rparr>) =
            Inr (Some alice)"
    using f2 by simp
  have h3: "CompareHashAndPassword demoLib (uPassword alice)
              (lPassword \<lparr>lEmail = ''alice@example.com'', lPassword = ''wrongpassword''\<rparr>) =
            Some (Bcrypt ''hashedPassword is not the hash of the given password'')"
    by (simp add: demoLib_def alice_def)
  have ok: "Login demoLib demoManager (still now0) aliceDB
       \<lparr>lEmail = ''alice@example.com'', lPassword = ''password123''\<rparr> =
       Inr \<lparr>arUser = UserToResponse alice, arToken = ''HS256.A.test-secret/HS256A''\<rparr>"
    by (simp add: Login_def FindByEmail_def jwt_defs demo_defs data_defs)
  show ?thesis
    using login_failures_indistinguishable [OF h1 h2 h3, of demoManager "still now0" "still now0" emptyContext]
      f1 f2 h3 ok
    by simp
qed

lemma precheck_taken:
  assumes "failure db = None" and "\<exists>u \<in> set (users db). uEmail u = rEmail req"
  shows "Register_precheck db req = Some (New ''email already registered'')"
  using assms by (simp add: Register_precheck_def ExistsByEmail_def)

lemma Create_result:
  assumes "UserRepository_Create db now user = Inr (user', db')"
  shows "failure db = None \<and> (\<forall>u \<in> set (users db). uEmail u \<noteq> uEmail user)
       \<and> user' = user\<lparr>uID := nextUserID db, uCreatedAt := now, uUpdatedAt := now\<rparr>
       \<and> db' = db\<lparr>users := users db @ [user']\<rparr>"
  using assms
  by (auto simp: UserRepository_Create_def Let_def split: option.splits if_splits)

lemma Register_success:
  assumes "Register L j now clock meanwhile db req = (Inr resp, db', events)"
  shows "\<exists>hashed user.
           Register_precheck db req = None
         \<and> GenerateFromPassword L (rPassword req) = Inr hashed
         \<and> UserRepository_Create (meanwhile db) now (newUser (rEmail req) hashed) = Inr (user, db')
         \<and> GenerateToken L j clock (uID user) (uEmail user) = Inr (arToken resp)
         \<and> arUser resp = UserToResponse user
         \<and> events = [Inserted user, Issued (uID user) (arToken resp)]"
  using assms
  by (auto simp: Register_def Register_persist_def split: option.splits sum.splits prod.splits)

lemma Register_issued:
  assumes "Register L j now clock meanwhile db req = (result, db', events)"
    and "Issued userID token \<in> set events"
  shows "\<exists>user. events = [Inserted user, Issued userID token] \<and> uID user = userID
              \<and> user \<in> set (users db') \<and> result = Inr \<lparr>arUser = UserToResponse user, arToken = token\<rparr>"
proof -
  from assms obtain hashed user where
    c: "UserRepository_Create (meanwhile db) now (newUser (rEmail req) hashed) = Inr (user, db')"
    and e: "events = [Inserted user, Issued userID token]" and u: "uID user = userID"
    and r: "result = Inr \<lparr>arUser = UserToResponse user, arToken = token\<rparr>"
    by (auto simp: Register_def Register_persist_def split: option.splits sum.splits prod.splits)
  from Create_result [OF c] have "user \<in> set (users db')" by simp
  with e u r show ?thesis by blast
qed

text \<open>
  Claim C5. A registration with an email that the store reports as present fails with
  \<open>email already registered\<close>, which the handler reports as a conflict; nothing is
  inserted, no token is signed and the store is unchanged. A registration that succeeds
  has first inserted the user and then signed the token, for the identifier which the
  insert assigned: the store has grown by exactly that row. When the insert fails after
  the check has passed, the registration fails with the error of the insert, and no
  token is signed. Whatever the outcome, a token is signed only after the insert of its
  user, who is then in the store.
\<close>

theorem register_taken_or_persisted:
  "(ExistsByEmail db (rEmail req) = Inr True \<longrightarrow>
       Register L j now clock meanwhile db req = (Inl (New ''email already registered''), db, [])
     \<and> AuthHandler_Register L j now clock meanwhile db c (Inr req) =
         (ConflictError c ''email already registered'', db))
   \<and> (\<forall>resp db' events. Register L j now clock meanwhile db req = (Inr resp, db', events) \<longrightarrow>
         (\<exists>hashed user.
             UserRepository_Create (meanwhile db) now (newUser (rEmail req) hashed) =
               Inr (user, db')
           \<and> users db' = users (meanwhile db) @ [user] \<and> uEmail user = rEmail req
           \<and> arUser resp = UserToResponse user
           \<and> GenerateToken L j clock (uID user) (uEmail user) = Inr (arToken resp)
           \<and> events = [Inserted user, Issued (uID user) (arToken resp)]))
   \<and> (\<forall>hashed err. Register_precheck db req = None
         \<and> GenerateFromPassword L (rPassword req) = Inr hashed
         \<and> UserRepository_Create (meanwhile db) now (newUser (rEmail req) hashed) = Inl err \<longrightarrow>
         Register L j now clock meanwhile db req = (Inl err, meanwhile db, []))
   \<and> (\<forall>result db' events userID token.
         Register L j now clock meanwhile db req = (result, db', events)
         \<and> Issued userID token \<in> set events \<longrightarrow>
         (\<exists>user. events = [Inserted user, Issued userID token] \<and> uID user = userID
                \<and> user \<in> set (users db')))"
proof (intro conjI allI impI)
  assume a: "ExistsByEmail db (rEmail req) = Inr True"
  then have p: "Register_precheck db req = Some (New ''email already registered'')"
    by (simp add: Register_precheck_def)
  show r: "Register L j now clock meanwhile db req =
             (Inl (New ''email already registered''), db, [])"
    by (simp add: Register_def p)
  show "AuthHandler_Register L j now clock meanwhile db c (Inr req) =
         (ConflictError c ''email already registered'', db)"
    by (simp add: AuthHandler_Register_def r Register_respond_def)
next
  fix resp db' events
  assume s: "Register L j now clock meanwhile db req = (Inr resp, db', events)"
  from Register_success [OF s] obtain hashed user where
    c: "UserRepository_Create (meanwhile db) now (newUser (rEmail req) hashed) = Inr (user, db')"
    and t: "GenerateToken L j clock (uID user) (uEmail user) = Inr (arToken resp)"
    and u: "arUser resp = UserToResponse user"
    and e: "events = [Inserted user, Issued (uID user) (arToken resp)]"
    by blast
  from Create_result [OF c]
  have "users db' = users (meanwhile db) @ [user]" "uEmail user = rEmail req"
    by (simp_all add: newUser_def)
  with c t u e show "\<exists>hashed user.
             UserRepository_Create (meanwhile db) now (newUser (rEmail req) hashed) =
               Inr (user, db')
           \<and> users db' = users (meanwhile db) @ [user] \<and> uEmail user = rEmail req
           \<and> arUser resp = UserToResponse user
           \<and> GenerateToken L j clock (uID user) (uEmail user) = Inr (arToken resp)
           \<and> events = [Inserted user, Issued (uID user) (arToken resp)]"
    by blast
next
  fix hashed err
  assume "Register_precheck db req = None
         \<and> GenerateFromPassword L (rPassword req) = Inr hashed
         \<and> UserRepository_Create (meanwhile db) now (newUser (rEmail req) hashed) = Inl err"
  then show "Register L j now clock meanwhile db req = (Inl err, meanwhile db, [])"
    by (simp add: Register_def Register_persist_def)
next
  fix result db' events userID token
  assume "Register L j now clock meanwhile db req = (result, db', events)
         \<and> Issued userID token \<in> set events"
  then show "\<exists>user. events = [Inserted user, Issued userID token] \<and> uID user = userID
                \<and> user \<in> set (users db')"
    using Register_issued by blast
qed

lemma register_alice:
  "Register demoLib demoManager now0 (still now0) id emptyDB aliceRequest =
     (Inr \<lparr>arUser = UserToResponse alice, arToken = ''HS256.A.test-secret/HS256A''\<rparr>,
      emptyDB\<lparr>users := [alice]\<rparr>,
      [Inserted alice, Issued 1 ''HS256.A.test-secret/HS256A''])"
  by (simp add: Register_def Register_precheck_def Register_persist_def ExistsByEmail_def
      UserRepository_Create_def nextUserID_def newUser_def Let_def jwt_defs demo_defs data_defs)

lemma late_precheck: "Register_precheck emptyDB aliceRequest = None"
  by (simp add: Register_precheck_def ExistsByEmail_def data_defs)

lemma late_hash:
  "GenerateFromPassword demoLib (rPassword aliceRequest) = Inr ''$2a$10$password123''"
  by (simp add: demoLib_def aliceRequest_def)

lemma late_insert:
  "UserRepository_Create (aliceFirst emptyDB) (now0 + 9)
     (newUser (rEmail aliceRequest) ''$2a$10$password123'') =
   Inl (Gorm ''UNIQUE constraint failed: users.email'')"
  by (simp add: UserRepository_Create_def ErrDuplicatedKey_def newUser_def data_defs)

lemmas register_defs = Register_def Register_precheck_def Register_persist_def
  ExistsByEmail_def UserRepository_Create_def ErrDuplicatedKey_def nextUserID_def newUser_def
  AuthHandler_Register_def Register_respond_def

lemma register_again:
  "Register demoLib demoManager (now0 + 9) (still (now0 + 9)) id aliceDB aliceRequest =
     (Inl (New ''email already registered''), aliceDB, [])"
  by (simp add: register_defs data_defs)

lemma register_late:
  "Register demoLib demoManager (now0 + 9) (still (now0 + 9)) aliceFirst emptyDB aliceRequest =
     (Inl (Gorm ''UNIQUE constraint failed: users.email''), aliceFirst emptyDB, [])"
  by (simp add: register_defs demoLib_def data_defs)

lemma respond_late:
  "Written (fst (AuthHandler_Register demoLib demoManager (now0 + 9) (still (now0 + 9))
                   aliceFirst emptyDB emptyContext (Inr aliceRequest))) =
     Some (500, Some \<lparr>Success = False, Message = [], Data = None,
                      Err = Some \<lparr>Code = ''INTERNAL_ERROR'',
                                  ErrMessage = ''Failed to register user'',
                                  Details = None\<rparr>\<rparr>)"
  by (simp add: register_defs demoLib_def data_defs response_defs
      StatusInternalServerError_def ErrCodeInternal_def)

text \<open>
  The runs: alice registers in the empty store, is inserted with identifier 1 and then
  given her token; a later registration with her email is refused and the store stays
  as it is; a registration that passes the check while another one of the same email is
  inserting meets the unique index at its own insert, fails with that error, and signs
  no token.
\<close>

theorem register_taken_or_persisted_witness:
  "Register demoLib demoManager now0 (still now0) id emptyDB aliceRequest =
     (Inr \<lparr>arUser = UserToResponse alice, arToken = ''HS256.A.test-secret/HS256A''\<rparr>,
      emptyDB\<lparr>users := [alice]\<rparr>,
      [Inserted alice, Issued 1 ''HS256.A.test-secret/HS256A''])
   \<and> (\<exists>hashed user.
         UserRepository_Create (id emptyDB) now0 (newUser (rEmail aliceRequest) hashed) =
           Inr (user, emptyDB\<lparr>users := [alice]\<rparr>)
       \<and> GenerateToken demoLib demoManager (still now0) (uID user) (uEmail user) =
           Inr ''HS256.A.test-secret/HS256A'')
   \<and> ExistsByEmail aliceDB (rEmail aliceRequest) = Inr True
   \<and> Register demoLib demoManager (now0 + 9) (still (now0 + 9)) id aliceDB aliceRequest =
       (Inl (New ''email already registered''), aliceDB, [])
   \<and> Written (fst (AuthHandler_Register demoLib demoManager (now0 + 9) (still (now0 + 9)) id
                      aliceDB emptyContext (Inr aliceRequest))) =
       Some (409, Some \<lparr>Success = False, Message = [], Data = None,
                        Err = Some \<lparr>Code = ''CONFLICT'',
                                    ErrMessage = ''email already registered'',
                                    Details = None\<rparr>\<rparr>)
   \<and> Register_precheck emptyDB aliceRequest = None
   \<and> UserRepository_Create (aliceFirst emptyDB) (now0 + 9)
       (newUser (rEmail aliceRequest) ''$2a$10$password123'') =
       Inl (Gorm ''UNIQUE constraint failed: users.email'')
   \<and> Register demoLib demoManager (now0 + 9) (still (now0 + 9)) aliceFirst emptyDB aliceRequest =
       (Inl (Gorm ''UNIQUE constraint failed: users.email''), aliceFirst emptyDB, [])"
proof -
  have h: "ExistsByEmail aliceDB (rEmail aliceRequest) = Inr True"
    by (simp add: ExistsByEmail_def data_defs)
  note t1 = register_taken_or_persisted [of aliceDB aliceRequest demoLib demoManager "now0 + 9"
      "still (now0 + 9)" id emptyContext]
  note t2 = register_taken_or_persisted [of emptyDB aliceRequest demoLib demoManager now0
      "still now0" id emptyContext]
  note t3 = register_taken_or_persisted [of emptyDB aliceRequest demoLib demoManager "now0 + 9"
      "still (now0 + 9)" aliceFirst emptyContext]
  from t1 h have taken:
    "Register demoLib demoManager (now0 + 9) (still (now0 + 9)) id aliceDB aliceRequest =
       (Inl (New ''email already registered''), aliceDB, [])"
    and handled: "AuthHandler_Register demoLib demoManager (now0 + 9) (still (now0 + 9)) id
                      aliceDB emptyContext (Inr aliceRequest) =
                  (ConflictError emptyContext ''email already registered'', aliceDB)"
    by blast+
  have conflict: "Written (fst (AuthHandler_Register demoLib demoManager (now0 + 9)
                      (still (now0 + 9)) id aliceDB emptyContext (Inr aliceRequest))) =
       Some (409, Some \<lparr>Success = False, Message = [], Data = None,
                        Err = Some \<lparr>Code = ''CONFLICT'',
                                    ErrMessage = ''email already registered'',
                                    Details = None\<rparr>\<rparr>)"
    unfolding handled by (simp add: response_defs StatusConflict_def ErrCodeConflict_def)
  from t2 register_alice have "\<exists>hashed user.
         UserRepository_Create (id emptyDB) now0 (newUser (rEmail aliceRequest) hashed) =
           Inr (user, emptyDB\<lparr>users := [alice]\<rparr>)
       \<and> GenerateToken demoLib demoManager (still now0) (uID user) (uEmail user) =
           Inr (arToken \<lparr>arUser = UserToResponse alice,
                         arToken = ''HS256.A.test-secret/HS256A''\<rparr>)"
    by blast
  then have persisted: "\<exists>hashed user.
         UserRepository_Create (id emptyDB) now0 (newUser (rEmail aliceRequest) hashed) =
           Inr (user, emptyDB\<lparr>users := [alice]\<rparr>)
       \<and> GenerateToken demoLib demoManager (still now0) (uID user) (uEmail user) =
           Inr ''HS256.A.test-secret/HS256A''"
    by simp
  from t3 late_precheck late_hash late_insert
  have late: "Register demoLib demoManager (now0 + 9) (still (now0 + 9)) aliceFirst emptyDB
                aliceRequest =
       (Inl (Gorm ''UNIQUE constraint failed: users.email''), aliceFirst emptyDB, [])"
    by blast
  show ?thesis
    using register_alice persisted h taken conflict late_precheck late_insert late
      register_again register_late
    by blast
qed

text \<open>
  Claim C8, as the program has it. After a registration that succeeded, a second
  registration with the same email string (the program stores and compares the email as
  it is given, it does not normalise it) fails with \<open>email already registered\<close>,
  reported as a conflict, and leaves the store unchanged; the store then holds exactly
  one user with that email string.
\<close>

theorem second_registration_taken:
  assumes "Register L j now clock meanwhile db req = (Inr resp, db1, events)"
    and "rEmail req2 = rEmail req"
  shows "Register L j now2 clock2 meanwhile2 db1 req2 =
           (Inl (New ''email already registered''), db1, [])
       \<and> AuthHandler_Register L j now2 clock2 meanwhile2 db1 c (Inr req2) =
           (ConflictError c ''email already registered'', db1)
       \<and> length (filter (\<lambda>u. uEmail u = rEmail req) (users db1)) = 1"
proof -
  from Register_success [OF assms(1)] obtain hashed user where
    c: "UserRepository_Create (meanwhile db) now (newUser (rEmail req) hashed) = Inr (user, db1)"
    by blast
  from Create_result [OF c] have f: "failure (meanwhile db) = None"
    and fresh: "\<forall>u \<in> set (users (meanwhile db)). uEmail u \<noteq> rEmail req"
    and e: "uEmail user = rEmail req"
    and d: "db1 = (meanwhile db)\<lparr>users := users (meanwhile db) @ [user]\<rparr>"
    by (simp_all add: newUser_def)
  have none: "filter (\<lambda>u. uEmail u = rEmail req) (users (meanwhile db)) = []"
    using fresh by (simp add: filter_empty_conv)
  have one: "length (filter (\<lambda>u. uEmail u = rEmail req) (users db1)) = 1"
    by (simp add: d none e)
  have "failure db1 = None" "\<exists>u \<in> set (users db1). uEmail u = rEmail req2"
    using f e assms(2) by (simp_all add: d)
  then have "Register_precheck db1 req2 = Some (New ''email already registered'')"
    by (rule precheck_taken)
  then have r: "Register L j now2 clock2 meanwhile2 db1 req2 =
                  (Inl (New ''email already registered''), db1, [])"
    by (simp add: Register_def)
  show ?thesis
    by (simp add: r one AuthHandler_Register_def Register_respond_def)
qed

text \<open>
  The run: alice registers in the empty store, then registers again with the same email
  and another password. The second call is refused with status 409 and the store holds
  alice once.
\<close>

theorem second_registration_taken_witness:
  "Register demoLib demoManager now0 (still now0) id emptyDB aliceRequest =
     (Inr \<lparr>arUser = UserToResponse alice, arToken = ''HS256.A.test-secret/HS256A''\<rparr>,
      emptyDB\<lparr>users := [alice]\<rparr>,
      [Inserted alice, Issued 1 ''HS256.A.test-secret/HS256A''])
   \<and> Register demoLib demoManager (now0 + 9) (still (now0 + 9)) id (emptyDB\<lparr>users := [alice]\<rparr>)
       \<lparr>rEmail = ''alice@example.com'', rPassword = ''another-one''\<rparr> =
       (Inl (New ''email already registered''), emptyDB\<lparr>users := [alice]\<rparr>, [])
   \<and> Written (fst (AuthHandler_Register demoLib demoManager (now0 + 9) (still (now0 + 9)) id
                      (emptyDB\<lparr>users := [alice]\<rparr>) emptyContext
                      (Inr \<lparr>rEmail = ''alice@example.com'', rPassword = ''another-one''\<rparr>))) =
       Some (409, Some \<lparr>Success = False, Message = [], Data = None,
                        Err = Some \<lparr>Code = ''CONFLICT'',
                                    ErrMessage = ''email already registered'',
                                    Details = None\<rparr>\<rparr>)
   \<and> length (filter (\<lambda>u. uEmail u = ''alice@example.com'')
               (users (emptyDB\<lparr>users := [alice]\<rparr>))) = 1"
proof -
  have e: "rEmail \<lparr>rEmail = ''alice@example.com'', rPassword = ''another-one''\<rparr> =
           rEmail aliceRequest"
    by (simp add: aliceRequest_def)
  have a: "rEmail aliceRequest = ''alice@example.com''" by (simp add: aliceRequest_def)
  note t = second_registration_taken [OF register_alice e, of "now0 + 9" "still (now0 + 9)" id
      emptyContext]
  from t have handled: "AuthHandler_Register demoLib demoManager (now0 + 9) (still (now0 + 9)) id
                      (emptyDB\<lparr>users := [alice]\<rparr>) emptyContext
                      (Inr \<lparr>rEmail = ''alice@example.com'', rPassword = ''another-one''\<rparr>) =
                  (ConflictError emptyContext ''email already registered'',
                   emptyDB\<lparr>users := [alice]\<rparr>)"
    by blast
  have conflict: "Written (fst (AuthHandler_Register demoLib demoManager (now0 + 9)
                      (still (now0 + 9)) id (emptyDB\<lparr>users := [alice]\<rparr>) emptyContext
                      (Inr \<lparr>rEmail = ''alice@example.com'', rPassword = ''another-one''\<rparr>))) =
       Some (409, Some \<lparr>Success = False, Message = [], Data = None,
                        Err = Some \<lparr>Code = ''CONFLICT'',
                                    ErrMessage = ''email already registered'',
                                    Details = None\<rparr>\<rparr>)"
    unfolding handled by (simp add: response_defs StatusConflict_def ErrCodeConflict_def)
  have direct: "Register demoLib demoManager (now0 + 9) (still (now0 + 9)) id
                  (emptyDB\<lparr>users := [alice]\<rparr>)
                  \<lparr>rEmail = ''alice@example.com'', rPassword = ''another-one''\<rparr> =
                (Inl (New ''email already registered''), emptyDB\<lparr>users := [alice]\<rparr>, [])"
    "length (filter (\<lambda>u. uEmail u = ''alice@example.com'')
               (users (emptyDB\<lparr>users := [alice]\<rparr>))) = 1"
    by (simp_all add: register_defs data_defs)
  show ?thesis
    using t register_alice conflict direct by (simp add: a)
qed

text \<open>
  Against claim C8 as stated: \<open>Alice@Example.com\<close> and \<open>alice@example.com\<close> are the same
  email once normalised (here: in lower case). Registering the second after the first
  does not yield \<open>EmailTaken\<close>: it succeeds, and the store holds two users for it.
\<close>

theorem second_registration_counterexample:
  "Register demoLib demoManager now0 (still now0) id emptyDB aliceRequest =
     (Inr \<lparr>arUser = UserToResponse alice, arToken = ''HS256.A.test-secret/HS256A''\<rparr>,
      emptyDB\<lparr>users := [alice]\<rparr>,
      [Inserted alice, Issued 1 ''HS256.A.test-secret/HS256A''])
   \<and> ToLower (rEmail capitalRequest) = ToLower (rEmail aliceRequest)
   \<and> Register demoLib demoManager (now0 + 9) (still (now0 + 9)) id (emptyDB\<lparr>users := [alice]\<rparr>)
       capitalRequest =
     (Inr \<lparr>arUser = UserToResponse capitalAlice, arToken = ''HS256.F.test-secret/HS256F''\<rparr>,
      emptyDB\<lparr>users := [alice, capitalAlice]\<rparr>,
      [Inserted capitalAlice, Issued 2 ''HS256.F.test-secret/HS256F''])
   \<and> ToLower (uEmail alice) = ''alice@example.com''
   \<and> ToLower (uEmail capitalAlice) = ''alice@example.com''
   \<and> uID alice \<noteq> uID capitalAlice"
proof -
  have l: "ToLower (rEmail capitalRequest) = ToLower (rEmail aliceRequest)"
    "ToLower (uEmail alice) = ''alice@example.com''"
    "ToLower (uEmail capitalAlice) = ''alice@example.com''"
    "uID alice \<noteq> uID capitalAlice"
    by (simp_all add: data_defs ToLower_def toLowerChar_def)
  have r: "Register demoLib demoManager (now0 + 9) (still (now0 + 9)) id
             (emptyDB\<lparr>users := [alice]\<rparr>) capitalRequest =
     (Inr \<lparr>arUser = UserToResponse capitalAlice, arToken = ''HS256.F.test-secret/HS256F''\<rparr>,
      emptyDB\<lparr>users := [alice, capitalAlice]\<rparr>,
      [Inserted capitalAlice, Issued 2 ''HS256.F.test-secret/HS256F''])"
    by (simp add: Register_def Register_precheck_def Register_persist_def ExistsByEmail_def
        UserRepository_Create_def nextUserID_def newUser_def Let_def numeral_2_eq_2
        jwt_defs demo_defs data_defs)
  show ?thesis using register_alice l r by simp
qed

text \<open>
  Claim C7, at the input where the program fails it. The check before the insert has
  passed, and the insert then fails with an error whose text is not the text of the
  service's own error, as is the uniqueness violation that the persistence layer
  reports. \<open>Register\<close> returns that error as it is, and the handler, which reports a
  conflict only for the text \<open>email already registered\<close>, answers with the internal
  error and status 500.
\<close>

theorem late_violation_is_internal:
  assumes "Register_precheck db req = None"
    and "GenerateFromPassword L (rPassword req) = Inr hashed"
    and "UserRepository_Create (meanwhile db) now (newUser (rEmail req) hashed) = Inl err"
    and "Error err \<noteq> ''email already registered''"
  shows "Register L j now clock meanwhile db req = (Inl err, meanwhile db, [])
       \<and> AuthHandler_Register L j now clock meanwhile db c (Inr req) =
           (InternalError c ''Failed to register user'', meanwhile db)
       \<and> Written (fst (AuthHandler_Register L j now clock meanwhile db c (Inr req))) =
           Some (500, Some \<lparr>Success = False, Message = [], Data = None,
                            Err = Some \<lparr>Code = ''INTERNAL_ERROR'',
                                        ErrMessage = ''Failed to register user'',
                                        Details = None\<rparr>\<rparr>)"
proof -
  have r: "Register L j now clock meanwhile db req = (Inl err, meanwhile db, [])"
    using assms(1,2,3) by (simp add: Register_def Register_persist_def)
  have h: "AuthHandler_Register L j now clock meanwhile db c (Inr req) =
           (InternalError c ''Failed to register user'', meanwhile db)"
    using assms(4) by (simp add: AuthHandler_Register_def r Register_respond_def)
  have w: "Written (InternalError c ''Failed to register user'') =
           Some (500, Some \<lparr>Success = False, Message = [], Data = None,
                            Err = Some \<lparr>Code = ''INTERNAL_ERROR'',
                                        ErrMessage = ''Failed to register user'',
                                        Details = None\<rparr>\<rparr>)"
    by (simp add: response_defs StatusInternalServerError_def ErrCodeInternal_def)
  show ?thesis by (simp add: r h w)
qed

text \<open>
  The run: two requests register the same email at the same time. The check of the
  second passes on the empty store; the first completes; the insert of the second then
  meets the row of the first. The second request is answered with status 500, where a
  request that arrives after the first has completed is answered with status 409.
\<close>

theorem late_violation_is_internal_witness:
  "Register_precheck emptyDB aliceRequest = None
   \<and> GenerateFromPassword demoLib (rPassword aliceRequest) = Inr ''$2a$10$password123''
   \<and> UserRepository_Create (aliceFirst emptyDB) (now0 + 9)
       (newUser (rEmail aliceRequest) ''$2a$10$password123'') =
       Inl (Gorm ''UNIQUE constraint failed: users.email'')
   \<and> Register demoLib demoManager (now0 + 9) (still (now0 + 9)) aliceFirst emptyDB aliceRequest =
       (Inl (Gorm ''UNIQUE constraint failed: users.email''), aliceFirst emptyDB, [])
   \<and> Written (fst (AuthHandler_Register demoLib demoManager (now0 + 9) (still (now0 + 9))
                      aliceFirst emptyDB emptyContext (Inr aliceRequest))) =
       Some (500, Some \<lparr>Success = False, Message = [], Data = None,
                        Err = Some \<lparr>Code = ''INTERNAL_ERROR'',
                                    ErrMessage = ''Failed to register user'',
                                    Details = None\<rparr>\<rparr>)
   \<and> Written (fst (AuthHandler_Register demoLib demoManager (now0 + 9) (still (now0 + 9))
                      id (aliceFirst emptyDB) emptyContext (Inr aliceRequest))) =
       Some (409, Some \<lparr>Success = False, Message = [], Data = None,
                        Err = Some \<lparr>Code = ''CONFLICT'',
                                    ErrMessage = ''email already registered'',
                                    Details = None\<rparr>\<rparr>)"
proof -
  have n: "Error (Gorm ''UNIQUE constraint failed: users.email'') \<noteq>
             ''email already registered''"
    by simp
  have after: "Written (fst (AuthHandler_Register demoLib demoManager (now0 + 9)
                      (still (now0 + 9)) id (aliceFirst emptyDB) emptyContext
                      (Inr aliceRequest))) =
       Some (409, Some \<lparr>Success = False, Message = [], Data = None,
                        Err = Some \<lparr>Code = ''CONFLICT'',
                                    ErrMessage = ''email already registered'',
                                    Details = None\<rparr>\<rparr>)"
    by (simp add: AuthHandler_Register_def Register_def Register_precheck_def
        ExistsByEmail_def Register_respond_def response_defs StatusConflict_def
        ErrCodeConflict_def data_defs)
  show ?thesis
    using late_violation_is_internal [where db = emptyDB and req = aliceRequest
        and L = demoLib and hashed = "''$2a$10$password123''" and meanwhile = aliceFirst
        and now = "now0 + 9" and err = "Gorm ''UNIQUE constraint failed: users.email''"
        and j = demoManager and clock = "still (now0 + 9)" and c = emptyContext,
        OF late_precheck late_hash late_insert n]
      late_precheck late_hash late_insert after register_late respond_late
    by blast
qed

subsection \<open>The token codec\<close>

lemma NewNumericDate_le: "NewNumericDate t \<le> t"
  by (simp add: NewNumericDate_def TimePrecision_def)

lemma NewNumericDate_mono: "s \<le> t \<Longrightarrow> NewNumericDate s \<le> NewNumericDate t"
proof -
  assume "s \<le> t"
  have "NewNumericDate x = (x div TimePrecision) * TimePrecision" for x
    by (simp add: NewNumericDate_def minus_mod_eq_div_mult)
  moreover have "s div TimePrecision \<le> t div TimePrecision"
    using \<open>s \<le> t\<close> by (simp add: TimePrecision_def zdiv_mono1)
  ultimately show ?thesis by (simp add: TimePrecision_def)
qed

lemma NewNumericDate_add:
  "NewNumericDate (t + TimePrecision) = NewNumericDate t + TimePrecision"
  by (simp add: NewNumericDate_def)

lemma NewNumericDate_gt: "t < NewNumericDate t + TimePrecision"
proof -
  have "t mod TimePrecision < TimePrecision" by (simp add: TimePrecision_def)
  then show ?thesis by (simp add: NewNumericDate_def)
qed

lemma NewNumericDate_whole: "t mod TimePrecision = 0 \<Longrightarrow> NewNumericDate t = t"
  by (simp add: NewNumericDate_def)

lemma GenerateToken_eq:
  "GenerateToken L j clock userID email =
     Inr (SigningString L ''HS256'' (newClaims j clock userID email) @ ''.'' @
          EncodeSegment L (HMAC L ''HS256'' (secret j)
             (SigningString L ''HS256'' (newClaims j clock userID email))))"
  by (simp add: GenerateToken_def SignedString_def Let_def)

lemma ValidateToken_roundtrip:
  assumes "library_roundtrip L (secret j) claims"
  shows "ValidateToken L j t
           (SigningString L ''HS256'' claims @ ''.'' @
            EncodeSegment L (HMAC L ''HS256'' (secret j) (SigningString L ''HS256'' claims)))
         = (case Validate t claims of [] \<Rightarrow> Inr claims
            | e # es \<Rightarrow> Inl (Jwt (ErrTokenInvalidClaims (e # es))))"
  using assms
  by (simp add: library_roundtrip_def Let_def ValidateToken_def ParseWithClaims_def
      GetSigningMethod_def keyFunc_def Verify_def split: list.splits)

lemma Validate_newClaims:
  "Validate t (newClaims j (now1, now2, now3) userID email) = [] \<longleftrightarrow>
     NewNumericDate now3 \<le> t \<and> t < NewNumericDate (now1 + expiry j)"
  by (auto simp: Validate_def newClaims_def)

text \<open>
  Claim C3, as the program has it. The token carries the user, the email and the
  configured issuer, and three dates at the precision of one second, each from its own
  reading of the clock: expires-at is the first reading plus the ttl, cut down to the
  whole second; issued-at is the second reading cut down to the whole second;
  not-before is the third reading cut down to the whole second (where the readings and
  the ttl are whole seconds, the dates are the readings themselves). Provided that the
  library decodes the token it issued here back to what it encoded, verification with
  the same manager succeeds and returns exactly these claims at every instant from
  not-before up to, and excluding, expires-at, and fails at every other instant; the
  instant of the third reading is inside that window when it is at least one second
  before the first reading plus the ttl.
\<close>

theorem issue_then_verify:
  assumes "library_roundtrip L (secret j) (newClaims j (now1, now2, now3) userID email)"
  shows "(case GenerateToken L j (now1, now2, now3) userID email of
            Inl err \<Rightarrow> False
          | Inr tok \<Rightarrow>
              (\<forall>t. NewNumericDate now3 \<le> t \<and> t < NewNumericDate (now1 + expiry j) \<longrightarrow>
                     ValidateToken L j t tok = Inr (newClaims j (now1, now2, now3) userID email))
              \<and> (\<forall>t. \<not> (NewNumericDate now3 \<le> t \<and> t < NewNumericDate (now1 + expiry j)) \<longrightarrow>
                     (\<exists>e es. ValidateToken L j t tok = Inl (Jwt (ErrTokenInvalidClaims (e # es)))))
              \<and> (now3 + TimePrecision \<le> now1 + expiry j \<longrightarrow>
                     ValidateToken L j now3 tok =
                       Inr (newClaims j (now1, now2, now3) userID email)))
       \<and> cUserID (newClaims j (now1, now2, now3) userID email) = userID
       \<and> cEmail (newClaims j (now1, now2, now3) userID email) = email
       \<and> Issuer (newClaims j (now1, now2, now3) userID email) = issuer j
       \<and> ExpiresAt (newClaims j (now1, now2, now3) userID email) =
           Some (NewNumericDate (now1 + expiry j))
       \<and> IssuedAt (newClaims j (now1, now2, now3) userID email) = Some (NewNumericDate now2)
       \<and> NotBefore (newClaims j (now1, now2, now3) userID email) = Some (NewNumericDate now3)
       \<and> (now1 mod TimePrecision = 0 \<and> now2 mod TimePrecision = 0
            \<and> now3 mod TimePrecision = 0 \<and> expiry j mod TimePrecision = 0 \<longrightarrow>
            ExpiresAt (newClaims j (now1, now2, now3) userID email) = Some (now1 + expiry j)
          \<and> IssuedAt (newClaims j (now1, now2, now3) userID email) = Some now2
          \<and> NotBefore (newClaims j (now1, now2, now3) userID email) = Some now3)"
proof -
  let ?claims = "newClaims j (now1, now2, now3) userID email"
  let ?tok = "SigningString L ''HS256'' ?claims @ ''.'' @
              EncodeSegment L (HMAC L ''HS256'' (secret j) (SigningString L ''HS256'' ?claims))"
  have g: "GenerateToken L j (now1, now2, now3) userID email = Inr ?tok"
    by (rule GenerateToken_eq)
  have v: "ValidateToken L j t ?tok = Inr ?claims"
    if "NewNumericDate now3 \<le> t \<and> t < NewNumericDate (now1 + expiry j)" for t
  proof -
    from that have "Validate t ?claims = []" by (simp add: Validate_newClaims)
    then show ?thesis using ValidateToken_roundtrip [OF assms, of t] by simp
  qed
  have o: "\<exists>e es. ValidateToken L j t ?tok = Inl (Jwt (ErrTokenInvalidClaims (e # es)))"
    if "\<not> (NewNumericDate now3 \<le> t \<and> t < NewNumericDate (now1 + expiry j))" for t
  proof -
    from that have "Validate t ?claims \<noteq> []" by (simp add: Validate_newClaims)
    then obtain e es where "Validate t ?claims = e # es" by (cases "Validate t ?claims") auto
    then show ?thesis using ValidateToken_roundtrip [OF assms, of t] by simp
  qed
  have w: "ValidateToken L j now3 ?tok = Inr ?claims" if "now3 + TimePrecision \<le> now1 + expiry j"
  proof -
    from that have "NewNumericDate (now3 + TimePrecision) \<le> NewNumericDate (now1 + expiry j)"
      by (rule NewNumericDate_mono)
    then have "now3 < NewNumericDate (now1 + expiry j)"
      using NewNumericDate_gt [of now3] by (simp add: NewNumericDate_add)
    then show ?thesis using v NewNumericDate_le [of now3] by simp
  qed
  have whole: "now1 mod TimePrecision = 0 \<and> now2 mod TimePrecision = 0
            \<and> now3 mod TimePrecision = 0 \<and> expiry j mod TimePrecision = 0 \<longrightarrow>
      NewNumericDate now2 = now2 \<and> NewNumericDate now3 = now3
      \<and> NewNumericDate (now1 + expiry j) = now1 + expiry j"
  proof
    assume a: "now1 mod TimePrecision = 0 \<and> now2 mod TimePrecision = 0
            \<and> now3 mod TimePrecision = 0 \<and> expiry j mod TimePrecision = 0"
    then have "(now1 + expiry j) mod TimePrecision = 0"
      by (simp add: mod_add_eq [symmetric] del: mod_add_eq)
    with a show "NewNumericDate now2 = now2 \<and> NewNumericDate now3 = now3
      \<and> NewNumericDate (now1 + expiry j) = now1 + expiry j"
      by (simp add: NewNumericDate_whole)
  qed
  have fields: "cUserID ?claims = userID" "cEmail ?claims = email" "Issuer ?claims = issuer j"
    "IssuedAt ?claims = Some (NewNumericDate now2)" "NotBefore ?claims = Some (NewNumericDate now3)"
    "ExpiresAt ?claims = Some (NewNumericDate (now1 + expiry j))"
    by (simp_all add: newClaims_def)
  have first: "(case GenerateToken L j (now1, now2, now3) userID email of
            Inl err \<Rightarrow> False
          | Inr tok \<Rightarrow>
              (\<forall>t. NewNumericDate now3 \<le> t \<and> t < NewNumericDate (now1 + expiry j) \<longrightarrow>
                     ValidateToken L j t tok = Inr ?claims)
              \<and> (\<forall>t. \<not> (NewNumericDate now3 \<le> t \<and> t < NewNumericDate (now1 + expiry j)) \<longrightarrow>
                     (\<exists>e es. ValidateToken L j t tok = Inl (Jwt (ErrTokenInvalidClaims (e # es)))))
              \<and> (now3 + TimePrecision \<le> now1 + expiry j \<longrightarrow>
                     ValidateToken L j now3 tok = Inr ?claims))"
    using v o w g by simp
  show ?thesis
    using first whole by (simp add: fields)
qed

lemma token_A:
  "GenerateToken demoLib demoManager (still now0) 1 ''alice@example.com'' =
     Inr ''HS256.A.test-secret/HS256A''"
  by (simp add: jwt_defs demo_defs)

lemma roundtrip_A:
  "library_roundtrip demoLib (secret demoManager)
     (newClaims demoManager (now0, now0, now0) 1 ''alice@example.com'')"
  by (simp add: library_roundtrip_def demo_defs)

lemma token_B:
  "GenerateToken demoLib shortManager (still now0) 1 ''alice@example.com'' =
     Inr ''HS256.B.test-secret/HS256B''"
  by (simp add: jwt_defs demo_defs)

lemma roundtrip_B:
  "library_roundtrip demoLib (secret shortManager)
     (newClaims shortManager (still now0) 1 ''alice@example.com'')"
  by (simp add: library_roundtrip_def demo_defs)

lemma token_C:
  "GenerateToken demoLib pastManager (still now0) 2 ''bob@example.com'' =
     Inr ''HS256.C.test-secret/HS256C''"
  by (simp add: jwt_defs demo_defs)

lemma roundtrip_C:
  "library_roundtrip demoLib (secret pastManager)
     (newClaims pastManager (now0, now0, now0) 2 ''bob@example.com'')"
  by (simp add: library_roundtrip_def demo_defs)

lemma token_D:
  "GenerateToken demoLib secondManager across 1 ''alice@example.com'' =
     Inr ''HS256.D.test-secret/HS256D''"
  by (simp add: jwt_defs demo_defs)

lemma roundtrip_D:
  "library_roundtrip demoLib (secret secondManager)
     (newClaims secondManager across 1 ''alice@example.com'')"
  by (simp add: library_roundtrip_def demo_defs)

text \<open>
  The run: a token for alice with a ttl of one hour, issued half a second after a whole
  second. It verifies at the instant of issuing, and its dates are whole seconds.
\<close>

theorem issue_then_verify_witness:
  "library_roundtrip demoLib (secret demoManager)
     (newClaims demoManager (now0, now0, now0) 1 ''alice@example.com'')
   \<and> now0 + TimePrecision \<le> now0 + expiry demoManager
   \<and> GenerateToken demoLib demoManager (now0, now0, now0) 1 ''alice@example.com'' =
       Inr ''HS256.A.test-secret/HS256A''
   \<and> ValidateToken demoLib demoManager now0 ''HS256.A.test-secret/HS256A'' =
       Inr \<lparr>cUserID = 1, cEmail = ''alice@example.com'', Issuer = ''test'',
            ExpiresAt = Some 1700003600000000000, NotBefore = Some 1700000000000000000,
            IssuedAt = Some 1700000000000000000\<rparr>"
proof -
  have e: "now0 + TimePrecision \<le> now0 + expiry demoManager"
    by (simp add: demo_defs)
  have c: "newClaims demoManager (now0, now0, now0) 1 ''alice@example.com'' =
       \<lparr>cUserID = 1, cEmail = ''alice@example.com'', Issuer = ''test'',
            ExpiresAt = Some 1700003600000000000, NotBefore = Some 1700000000000000000,
            IssuedAt = Some 1700000000000000000\<rparr>"
    by (simp add: demo_defs)
  have t: "GenerateToken demoLib demoManager (now0, now0, now0) 1 ''alice@example.com'' =
       Inr ''HS256.A.test-secret/HS256A''"
    using token_A by (simp add: still_def)
  have direct: "ValidateToken demoLib demoManager now0 ''HS256.A.test-secret/HS256A'' =
       Inr \<lparr>cUserID = 1, cEmail = ''alice@example.com'', Issuer = ''test'',
            ExpiresAt = Some 1700003600000000000, NotBefore = Some 1700000000000000000,
            IssuedAt = Some 1700000000000000000\<rparr>"
    by (simp add: jwt_defs demo_defs)
  from issue_then_verify [OF roundtrip_A] t e
  have "ValidateToken demoLib demoManager now0 ''HS256.A.test-secret/HS256A'' =
          Inr (newClaims demoManager (now0, now0, now0) 1 ''alice@example.com'')"
    by simp
  then show ?thesis using roundtrip_A e t c direct by simp
qed

text \<open>
  Against claim C3 as stated. With the positive ttl of a tenth of a second, the token
  issued half a second after a whole second expires at that whole second: verifying it
  at the instant of issuing fails, and its dates are not \<open>now\<close> and \<open>now + ttl\<close>; nor are
  those of the token with a ttl of one hour. With a ttl of one second and the three
  readings of the clock on both sides of a whole second, issued-at is not not-before,
  and the token is expired at the third reading.
\<close>

theorem issue_then_verify_counterexample:
  "0 < expiry shortManager
   \<and> library_roundtrip demoLib (secret shortManager)
       (newClaims shortManager (still now0) 1 ''alice@example.com'')
   \<and> GenerateToken demoLib shortManager (still now0) 1 ''alice@example.com'' =
       Inr ''HS256.B.test-secret/HS256B''
   \<and> ValidateToken demoLib shortManager now0 ''HS256.B.test-secret/HS256B'' =
       Inl (Jwt (ErrTokenInvalidClaims [ErrTokenExpired]))
   \<and> IssuedAt (newClaims shortManager (still now0) 1 ''alice@example.com'') \<noteq> Some now0
   \<and> ExpiresAt (newClaims shortManager (still now0) 1 ''alice@example.com'') \<noteq>
       Some (now0 + expiry shortManager)
   \<and> IssuedAt (newClaims demoManager (still now0) 1 ''alice@example.com'') \<noteq> Some now0
   \<and> ExpiresAt (newClaims demoManager (still now0) 1 ''alice@example.com'') \<noteq>
       Some (now0 + expiry demoManager)
   \<and> library_roundtrip demoLib (secret secondManager)
       (newClaims secondManager across 1 ''alice@example.com'')
   \<and> GenerateToken demoLib secondManager across 1 ''alice@example.com'' =
       Inr ''HS256.D.test-secret/HS256D''
   \<and> IssuedAt (newClaims secondManager across 1 ''alice@example.com'') \<noteq>
       NotBefore (newClaims secondManager across 1 ''alice@example.com'')
   \<and> ValidateToken demoLib secondManager 1700000001000000001 ''HS256.D.test-secret/HS256D'' =
       Inl (Jwt (ErrTokenInvalidClaims [ErrTokenExpired]))"
proof -
  have v: "ValidateToken demoLib shortManager now0 ''HS256.B.test-secret/HS256B'' =
       Inl (Jwt (ErrTokenInvalidClaims [ErrTokenExpired]))"
    "ValidateToken demoLib secondManager 1700000001000000001 ''HS256.D.test-secret/HS256D'' =
       Inl (Jwt (ErrTokenInvalidClaims [ErrTokenExpired]))"
    by (simp_all add: jwt_defs demo_defs)
  have d: "0 < expiry shortManager"
    "IssuedAt (newClaims shortManager (still now0) 1 ''alice@example.com'') \<noteq> Some now0"
    "ExpiresAt (newClaims shortManager (still now0) 1 ''alice@example.com'') \<noteq>
       Some (now0 + expiry shortManager)"
    "IssuedAt (newClaims demoManager (still now0) 1 ''alice@example.com'') \<noteq> Some now0"
    "ExpiresAt (newClaims demoManager (still now0) 1 ''alice@example.com'') \<noteq>
       Some (now0 + expiry demoManager)"
    "IssuedAt (newClaims secondManager across 1 ''alice@example.com'') \<noteq>
       NotBefore (newClaims secondManager across 1 ''alice@example.com'')"
    by (simp_all add: demo_defs)
  show ?thesis using v d roundtrip_B token_B roundtrip_D token_D by simp
qed

lemma GetSigningMethod_HMAC:
  "GetSigningMethod alg = Some (SigningMethodHMAC a) \<Longrightarrow> a = alg"
  by (simp add: GetSigningMethod_def split: if_splits)

lemma ValidateToken_accepts:
  assumes "ValidateToken L j now s = Inr claims"
  shows "\<exists>text alg seg sig.
           Decode L s = Some (text, Some alg, claims, seg)
         \<and> GetSigningMethod alg = Some (SigningMethodHMAC alg)
         \<and> DecodeSegment L seg = Some sig
         \<and> sig = HMAC L alg (secret j) text
         \<and> Validate now claims = []"
proof -
  from assms obtain token where p: "ParseWithClaims L (keyFunc j) now s = Inr token"
    and c: "Claims token = claims"
    by (auto simp: ValidateToken_def split: sum.splits if_splits)
  from p obtain signed alg cl seg where d: "Decode L s = Some (signed, Some alg, cl, seg)"
    by (auto simp: ParseWithClaims_def split: option.splits)
  from p d obtain m where m: "GetSigningMethod alg = Some m"
    by (auto simp: ParseWithClaims_def split: option.splits)
  from p d m obtain sig where s: "DecodeSegment L seg = Some sig"
    by (auto simp: ParseWithClaims_def split: option.splits)
  from p d m s have k: "\<exists>a. m = SigningMethodHMAC a"
    by (cases m) (auto simp: ParseWithClaims_def keyFunc_def Let_def)
  then have m': "m = SigningMethodHMAC alg" using m GetSigningMethod_HMAC by blast
  from p d m s m' have v: "sig = HMAC L alg (secret j) signed" and val: "Validate now cl = []"
    and t: "token = \<lparr>Method = m, Claims = cl, Signature = sig, Valid = True\<rparr>"
    by (auto simp: ParseWithClaims_def keyFunc_def Let_def Verify_def
        split: if_splits list.splits)
  from t c have "cl = claims" by simp
  with d m m' s v val show ?thesis by blast
qed

lemma Validate_outside:
  assumes "(case NotBefore claims of None \<Rightarrow> False | Some nbf \<Rightarrow> now < nbf)
         \<or> (case ExpiresAt claims of None \<Rightarrow> False | Some exp \<Rightarrow> exp \<le> now)"
  shows "Validate now claims \<noteq> []"
  using assms by (auto simp: Validate_def split: option.splits)

lemma cause_rejects:
  assumes "has_cause L j now s cause"
  shows "\<exists>err. ValidateToken L j now s = Inl err"
proof (cases "ValidateToken L j now s")
  case (Inl err)
  then show ?thesis by blast
next
  case (Inr claims)
  from ValidateToken_accepts [OF Inr] obtain signed alg seg sig where
    d: "Decode L s = Some (signed, Some alg, claims, seg)"
    and m: "GetSigningMethod alg = Some (SigningMethodHMAC alg)"
    and s: "DecodeSegment L seg = Some sig"
    and v: "sig = HMAC L alg (secret j) signed"
    and val: "Validate now claims = []"
    by blast
  have False
  proof (cases cause)
    case Malformed
    with assms d s show False by simp
  next
    case WrongFamily
    with assms d m show False by simp
  next
    case SignatureMismatch
    with assms d s v show False by simp
  next
    case OutsideWindow
    with assms d have "Validate now claims \<noteq> []"
      by (intro Validate_outside) simp
    with val show False by simp
  qed
  then show ?thesis ..
qed

text \<open>
  Claim C9. With a library that decodes what it encoded and a clock whose third reading
  is not before its first, a token issued with a negative ttl (such as \<open>-1\<close>) is
  rejected at every instant, and from the instant of issuing (the third reading) on
  precisely as expired. In general a token whose claims decode is rejected whenever the
  current time is before its not-before or has reached its expires-at.
\<close>

theorem negative_ttl_rejected:
  assumes "library_roundtrip L (secret j) (newClaims j (now1, now2, now3) userID email)"
    and "expiry j < 0"
    and "now1 \<le> now3"
  shows "(case GenerateToken L j (now1, now2, now3) userID email of
            Inl err \<Rightarrow> False
          | Inr tok \<Rightarrow>
              (\<forall>t. \<exists>e es. ValidateToken L j t tok = Inl (Jwt (ErrTokenInvalidClaims (e # es))))
              \<and> (\<forall>t. now3 \<le> t \<longrightarrow>
                     ValidateToken L j t tok = Inl (Jwt (ErrTokenInvalidClaims [ErrTokenExpired]))))
       \<and> (\<forall>t s. has_cause L j t s OutsideWindow \<longrightarrow> (\<exists>err. ValidateToken L j t s = Inl err))"
proof -
  let ?claims = "newClaims j (now1, now2, now3) userID email"
  let ?tok = "SigningString L ''HS256'' ?claims @ ''.'' @
              EncodeSegment L (HMAC L ''HS256'' (secret j) (SigningString L ''HS256'' ?claims))"
  have g: "GenerateToken L j (now1, now2, now3) userID email = Inr ?tok"
    by (rule GenerateToken_eq)
  have order: "NewNumericDate (now1 + expiry j) \<le> NewNumericDate now3"
    using assms(2,3) by (intro NewNumericDate_mono) simp
  have a: "\<exists>e es. ValidateToken L j t ?tok = Inl (Jwt (ErrTokenInvalidClaims (e # es)))" for t
  proof -
    have "Validate t ?claims \<noteq> []"
      using order by (simp add: Validate_newClaims)
    then obtain e es where "Validate t ?claims = e # es" by (cases "Validate t ?claims") auto
    then show ?thesis using ValidateToken_roundtrip [OF assms(1), of t] by simp
  qed
  have b: "ValidateToken L j t ?tok = Inl (Jwt (ErrTokenInvalidClaims [ErrTokenExpired]))"
    if "now3 \<le> t" for t
  proof -
    have "NewNumericDate (now1 + expiry j) \<le> t" "NewNumericDate now3 \<le> t"
      using order NewNumericDate_le [of now3] that by simp_all
    then have "Validate t ?claims = [ErrTokenExpired]"
      by (simp add: Validate_def newClaims_def)
    then show ?thesis using ValidateToken_roundtrip [OF assms(1), of t] by simp
  qed
  have c: "\<forall>t s. has_cause L j t s OutsideWindow \<longrightarrow> (\<exists>err. ValidateToken L j t s = Inl err)"
    using cause_rejects by blast
  have first: "(case GenerateToken L j (now1, now2, now3) userID email of
            Inl err \<Rightarrow> False
          | Inr tok \<Rightarrow>
              (\<forall>t. \<exists>e es. ValidateToken L j t tok = Inl (Jwt (ErrTokenInvalidClaims (e # es))))
              \<and> (\<forall>t. now3 \<le> t \<longrightarrow>
                     ValidateToken L j t tok = Inl (Jwt (ErrTokenInvalidClaims [ErrTokenExpired]))))"
    using a b g by simp
  show ?thesis using first c by (rule conjI)
qed

text \<open>
  The run: a token for bob with the ttl \<open>-1\<close>. It is expired at the instant of issuing.
\<close>

theorem negative_ttl_rejected_witness:
  "library_roundtrip demoLib (secret pastManager)
     (newClaims pastManager (now0, now0, now0) 2 ''bob@example.com'')
   \<and> expiry pastManager = - 1
   \<and> GenerateToken demoLib pastManager (now0, now0, now0) 2 ''bob@example.com'' =
       Inr ''HS256.C.test-secret/HS256C''
   \<and> ValidateToken demoLib pastManager now0 ''HS256.C.test-secret/HS256C'' =
       Inl (Jwt (ErrTokenInvalidClaims [ErrTokenExpired]))"
proof -
  have e: "expiry pastManager = - 1" by (simp add: pastManager_def NewJWTManager_def)
  then have n: "expiry pastManager < 0" by simp
  have t: "GenerateToken demoLib pastManager (now0, now0, now0) 2 ''bob@example.com'' =
       Inr ''HS256.C.test-secret/HS256C''"
    using token_C by (simp add: still_def)
  have m: "now0 \<le> now0" by simp
  from negative_ttl_rejected [OF roundtrip_C n m] t
  have "ValidateToken demoLib pastManager now0 ''HS256.C.test-secret/HS256C'' =
       Inl (Jwt (ErrTokenInvalidClaims [ErrTokenExpired]))"
    by simp
  then show ?thesis using roundtrip_C e t by simp
qed

subsection \<open>The authorization header\<close>

lemma toLowerChar_letters:
  "toLowerChar ch = CHR ''b'' \<longleftrightarrow> ch = CHR ''B'' \<or> ch = CHR ''b''"
  "toLowerChar ch = CHR ''e'' \<longleftrightarrow> ch = CHR ''E'' \<or> ch = CHR ''e''"
  "toLowerChar ch = CHR ''a'' \<longleftrightarrow> ch = CHR ''A'' \<or> ch = CHR ''a''"
  "toLowerChar ch = CHR ''r'' \<longleftrightarrow> ch = CHR ''R'' \<or> ch = CHR ''r''"
  by (simp_all add: toLowerChar_def)

lemma ToLower_bearer:
  "ToLower s = ''bearer'' \<longleftrightarrow>
     (\<exists>c1 c2 c3 c4 c5 c6. s = [c1, c2, c3, c4, c5, c6]
        \<and> (c1 = CHR ''B'' \<or> c1 = CHR ''b'') \<and> (c2 = CHR ''E'' \<or> c2 = CHR ''e'')
        \<and> (c3 = CHR ''A'' \<or> c3 = CHR ''a'') \<and> (c4 = CHR ''R'' \<or> c4 = CHR ''r'')
        \<and> (c5 = CHR ''E'' \<or> c5 = CHR ''e'') \<and> (c6 = CHR ''R'' \<or> c6 = CHR ''r''))"
proof
  assume a: "ToLower s = ''bearer''"
  then have "length s = 6" using length_map [of toLowerChar s] by (simp add: ToLower_def)
  then obtain c1 c2 c3 c4 c5 c6 where s: "s = [c1, c2, c3, c4, c5, c6]"
    by (auto simp: eval_nat_numeral length_Suc_conv)
  from a have "toLowerChar c1 = CHR ''b''" "toLowerChar c2 = CHR ''e''"
    "toLowerChar c3 = CHR ''a''" "toLowerChar c4 = CHR ''r''"
    "toLowerChar c5 = CHR ''e''" "toLowerChar c6 = CHR ''r''"
    by (simp_all add: ToLower_def s)
  then have "(c1 = CHR ''B'' \<or> c1 = CHR ''b'') \<and> (c2 = CHR ''E'' \<or> c2 = CHR ''e'')
        \<and> (c3 = CHR ''A'' \<or> c3 = CHR ''a'') \<and> (c4 = CHR ''R'' \<or> c4 = CHR ''r'')
        \<and> (c5 = CHR ''E'' \<or> c5 = CHR ''e'') \<and> (c6 = CHR ''R'' \<or> c6 = CHR ''r'')"
    by (simp only: toLowerChar_letters)
  with s show "\<exists>c1 c2 c3 c4 c5 c6. s = [c1, c2, c3, c4, c5, c6]
        \<and> (c1 = CHR ''B'' \<or> c1 = CHR ''b'') \<and> (c2 = CHR ''E'' \<or> c2 = CHR ''e'')
        \<and> (c3 = CHR ''A'' \<or> c3 = CHR ''a'') \<and> (c4 = CHR ''R'' \<or> c4 = CHR ''r'')
        \<and> (c5 = CHR ''E'' \<or> c5 = CHR ''e'') \<and> (c6 = CHR ''R'' \<or> c6 = CHR ''r'')"
    by blast
next
  assume "\<exists>c1 c2 c3 c4 c5 c6. s = [c1, c2, c3, c4, c5, c6]
        \<and> (c1 = CHR ''B'' \<or> c1 = CHR ''b'') \<and> (c2 = CHR ''E'' \<or> c2 = CHR ''e'')
        \<and> (c3 = CHR ''A'' \<or> c3 = CHR ''a'') \<and> (c4 = CHR ''R'' \<or> c4 = CHR ''r'')
        \<and> (c5 = CHR ''E'' \<or> c5 = CHR ''e'') \<and> (c6 = CHR ''R'' \<or> c6 = CHR ''r'')"
  then obtain c1 c2 c3 c4 c5 c6 where s: "s = [c1, c2, c3, c4, c5, c6]"
    and l: "toLowerChar c1 = CHR ''b''" "toLowerChar c2 = CHR ''e''"
    "toLowerChar c3 = CHR ''a''" "toLowerChar c4 = CHR ''r''"
    "toLowerChar c5 = CHR ''e''" "toLowerChar c6 = CHR ''r''"
    unfolding toLowerChar_letters by blast
  show "ToLower s = ''bearer''"
    by (simp add: ToLower_def s l)
qed

lemma bearer_no_space: "ToLower s = ''bearer'' \<Longrightarrow> CHR '' '' \<notin> set s"
proof
  assume a: "ToLower s = ''bearer''" and b: "CHR '' '' \<in> set s"
  from b have "toLowerChar (CHR '' '') \<in> set (ToLower s)" by (auto simp: ToLower_def)
  then show False using a by (simp add: toLowerChar_def)
qed

lemma SplitN_space:
  "CHR '' '' \<notin> set scheme \<Longrightarrow> SplitN (scheme @ CHR '' '' # tok) = [scheme, tok]"
  by (simp add: SplitN_def dropWhile_append3 takeWhile_append1 takeWhile_tail
      dropWhile_append takeWhile_append)

lemma SplitN_no_space:
  assumes "CHR '' '' \<notin> set s" shows "SplitN s = [s]"
proof -
  have "dropWhile (\<lambda>ch. ch \<noteq> CHR '' '') s = []"
    using assms by (auto simp: dropWhile_eq_Nil_conv)
  then show ?thesis unfolding SplitN_def by (simp only: list.case)
qed

lemma SplitN_cases:
  "SplitN s = [s] \<and> CHR '' '' \<notin> set s
   \<or> (\<exists>a b. s = a @ CHR '' '' # b \<and> CHR '' '' \<notin> set a \<and> SplitN s = [a, b])"
proof (cases "CHR '' '' \<in> set s")
  case False
  then show ?thesis by (simp add: SplitN_no_space)
next
  case True
  then obtain a b where "s = a @ CHR '' '' # b" "CHR '' '' \<notin> set a"
    by (meson split_list_first)
  then show ?thesis using SplitN_space by blast
qed

lemma first_space:
  assumes "a @ CHR '' '' # b = a' @ CHR '' '' # b'"
    and "CHR '' '' \<notin> set a" and "CHR '' '' \<notin> set a'"
  shows "a = a' \<and> b = b'"
proof -
  have "takeWhile (\<lambda>ch. ch \<noteq> CHR '' '') (a @ CHR '' '' # b) = a"
    "takeWhile (\<lambda>ch. ch \<noteq> CHR '' '') (a' @ CHR '' '' # b') = a'"
    using assms(2,3) by (auto simp: takeWhile_tail)
  with assms(1) have "a = a'" by simp
  with assms(1) show ?thesis by simp
qed

lemma bearer_token_Some:
  "bearer_token (Some h) = Some tok \<longleftrightarrow> (\<exists>s. h = s @ CHR '' '' # tok \<and> ToLower s = ''bearer'')"
proof
  assume "bearer_token (Some h) = Some tok"
  then show "\<exists>s. h = s @ CHR '' '' # tok \<and> ToLower s = ''bearer''"
  proof (cases "Some h" rule: bearer_token.cases)
    case (1 c1 c2 c3 c4 c5 c6 sp tokenString)
    with \<open>bearer_token (Some h) = Some tok\<close>
    have "h = [c1, c2, c3, c4, c5, c6] @ CHR '' '' # tok
          \<and> ToLower [c1, c2, c3, c4, c5, c6] = ''bearer''"
      by (auto simp: ToLower_bearer split: if_splits)
    then show ?thesis by blast
  qed auto
next
  assume "\<exists>s. h = s @ CHR '' '' # tok \<and> ToLower s = ''bearer''"
  then obtain s where "h = s @ CHR '' '' # tok" "ToLower s = ''bearer''" by blast
  then show "bearer_token (Some h) = Some tok"
    by (auto simp: ToLower_bearer)
qed

lemma bearer_token_split:
  assumes "CHR '' '' \<notin> set a"
  shows "bearer_token (Some (a @ CHR '' '' # b)) =
           (if ToLower a = ''bearer'' then Some b else None)"
proof (cases "ToLower a = ''bearer''")
  case True
  then show ?thesis using bearer_token_Some by auto
next
  case False
  have "bearer_token (Some (a @ CHR '' '' # b)) = None"
  proof (rule ccontr)
    assume "bearer_token (Some (a @ CHR '' '' # b)) \<noteq> None"
    then obtain tok where "bearer_token (Some (a @ CHR '' '' # b)) = Some tok" by auto
    then obtain s where s: "a @ CHR '' '' # b = s @ CHR '' '' # tok" "ToLower s = ''bearer''"
      using bearer_token_Some by blast
    from first_space [OF s(1) assms bearer_no_space [OF s(2)]] have "a = s" by simp
    with s(2) False show False by simp
  qed
  with False show ?thesis by simp
qed

lemma bearer_token_no_space:
  assumes "CHR '' '' \<notin> set h" shows "bearer_token (Some h) = None"
proof (rule ccontr)
  assume "bearer_token (Some h) \<noteq> None"
  then obtain tok where "bearer_token (Some h) = Some tok" by auto
  then obtain s where "h = s @ CHR '' '' # tok" using bearer_token_Some by blast
  with assms show False by simp
qed

lemma middleware_result:
  "AuthMiddleware L j now next c =
     (case bearer_token (Authorization c) of
        None \<Rightarrow>
          Abort (UnauthorizedError c
                   (if Authorization c = None \<or> Authorization c = Some []
                    then ''Authorization header required''
                    else ''Invalid authorization format. Use: Bearer <token>''))
      | Some tokenString \<Rightarrow>
          (case ValidateToken L j now tokenString of
             Inl err \<Rightarrow> Abort (UnauthorizedError c ''Invalid or expired token'')
           | Inr claims \<Rightarrow>
               next (Set (Set c ''user_id'' (AnyUint (cUserID claims)))
                         ''user_email'' (AnyString (cEmail claims)))))"
proof (cases "Authorization c")
  case None
  then show ?thesis by (simp add: AuthMiddleware_def GetHeader_def)
next
  case (Some h)
  show ?thesis
  proof (cases "h = []")
    case True
    with Some show ?thesis by (simp add: AuthMiddleware_def GetHeader_def)
  next
    case False
    have g: "GetHeader c = h" using Some by (simp add: GetHeader_def)
    from SplitN_cases [of h] show ?thesis
    proof
      assume "SplitN h = [h] \<and> CHR '' '' \<notin> set h"
      then show ?thesis
        using False Some by (simp add: AuthMiddleware_def g bearer_token_no_space)
    next
      assume "\<exists>a b. h = a @ CHR '' '' # b \<and> CHR '' '' \<notin> set a \<and> SplitN h = [a, b]"
      then obtain a b where h: "h = a @ CHR '' '' # b" and ns: "CHR '' '' \<notin> set a"
        and sp: "SplitN h = [a, b]"
        by blast
      have bt: "bearer_token (Some h) = (if ToLower a = ''bearer'' then Some b else None)"
        unfolding h using ns by (rule bearer_token_split)
      show ?thesis
        using False Some by (simp add: AuthMiddleware_def g sp bt)
    qed
  qed
qed

lemma runChain_stop: "Aborted c \<or> Done c \<Longrightarrow> runChain hs c = c"
  by (cases hs) auto

text \<open>
  Claim C6. The middleware, run at the head of a chain of handlers on a request that is
  neither aborted nor done, is the gate of the spec. When the header is absent (or
  empty), or is not the scheme literal \<open>Bearer\<close> (each letter in either case), one space
  and a token string, or when that token string fails verification, the response is the
  \<open>Unauthenticated\<close> one with status 401, the context is aborted, and none of the
  handlers behind the middleware is run, whatever they are. Otherwise the user's
  identifier and email from the verified claims are set in the context and the
  handlers behind the middleware run on it. The middleware is not given the database.
  (A header with a second space after the scheme carries a token string that begins
  with a space, which is for the verification to refuse.)
\<close>

theorem gate_contract:
  assumes "\<not> Aborted c" and "\<not> Done c"
  shows "runChain (AuthMiddleware L j now # rest) c =
     (case bearer_token (Authorization c) of
        None \<Rightarrow>
          c\<lparr>Written :=
               Some (Unauthenticated
                       (if Authorization c = None \<or> Authorization c = Some []
                        then ''Authorization header required''
                        else ''Invalid authorization format. Use: Bearer <token>'')),
            Aborted := True\<rparr>
      | Some tokenString \<Rightarrow>
          (case ValidateToken L j now tokenString of
             Inl err \<Rightarrow>
               c\<lparr>Written := Some (Unauthenticated ''Invalid or expired token''),
                 Aborted := True\<rparr>
           | Inr claims \<Rightarrow>
               (runChain rest
                  (c\<lparr>Keys := (Keys c)(''user_id'' \<mapsto> AnyUint (cUserID claims),
                                      ''user_email'' \<mapsto> AnyString (cEmail claims))\<rparr>))
               \<lparr>Done := True\<rparr>))"
proof -
  let ?next = "\<lambda>c'. (runChain rest c')\<lparr>Done := True\<rparr>"
  have step: "runChain (AuthMiddleware L j now # rest) c =
                runChain rest (AuthMiddleware L j now ?next c)"
    using assms by simp
  have rejected: "runChain rest (Abort (UnauthorizedError c message)) =
                    c\<lparr>Written := Some (Unauthenticated message), Aborted := True\<rparr>"
    if "message \<noteq> []" for message
  proof -
    have a: "Aborted (Abort (UnauthorizedError c message))" by (simp add: Abort_def)
    have "Abort (UnauthorizedError c message) =
            c\<lparr>Written := Some (Unauthenticated message), Aborted := True\<rparr>"
      using that
      by (simp add: response_defs Unauthenticated_def StatusUnauthorized_def
          ErrCodeUnauthorized_def)
    with a show ?thesis using runChain_stop by metis
  qed
  have accepted: "runChain rest (?next c') = (runChain rest c')\<lparr>Done := True\<rparr>" for c'
    by (rule runChain_stop) simp
  show ?thesis
    unfolding step middleware_result
    by (simp add: rejected accepted Set_def split: option.split sum.split)
qed

lemma validate_A:
  "ValidateToken demoLib demoManager now0 ''HS256.A.test-secret/HS256A'' =
     Inr (newClaims demoManager (still now0) 1 ''alice@example.com'')"
  by (simp add: jwt_defs demo_defs)

lemma malformed_garbage:
  "ValidateToken demoLib demoManager now0 ''garbage'' = Inl (Jwt ErrTokenMalformed)"
  by (simp add: jwt_defs demo_defs)

text \<open>
  The runs, each with a handler behind the middleware that answers with status 200. A
  request with alice's token and the scheme written \<open>BeArEr\<close> passes the gate: the
  handler runs and finds her identifier and email in the context. A request without
  header, one whose header is the scheme alone, and one with a string that is no token
  are answered with status 401 and aborted, and the handler does not run.
\<close>

theorem gate_contract_witness:
  "\<not> Aborted emptyContext \<and> \<not> Done emptyContext
   \<and> runChain [AuthMiddleware demoLib demoManager now0, okHandler]
       (emptyContext\<lparr>Authorization := Some ''BeArEr HS256.A.test-secret/HS256A''\<rparr>) =
     \<lparr>Authorization = Some ''BeArEr HS256.A.test-secret/HS256A'',
      Keys = [''user_id'' \<mapsto> AnyUint 1, ''user_email'' \<mapsto> AnyString ''alice@example.com''],
      Written = Some (200, None), Aborted = False, Done = True\<rparr>
   \<and> runChain [AuthMiddleware demoLib demoManager now0, okHandler] emptyContext =
     \<lparr>Authorization = None, Keys = Map.empty,
      Written = Some (401, Some \<lparr>Success = False, Message = [], Data = None,
                               Err = Some \<lparr>Code = ''UNAUTHORIZED'',
                                           ErrMessage = ''Authorization header required'',
                                           Details = None\<rparr>\<rparr>),
      Aborted = True, Done = False\<rparr>
   \<and> runChain [AuthMiddleware demoLib demoManager now0, okHandler]
       (emptyContext\<lparr>Authorization := Some ''Bearer''\<rparr>) =
     \<lparr>Authorization = Some ''Bearer'', Keys = Map.empty,
      Written = Some (401, Some \<lparr>Success = False, Message = [], Data = None,
                               Err = Some \<lparr>Code = ''UNAUTHORIZED'',
                                           ErrMessage =
                                             ''Invalid authorization format. Use: Bearer <token>'',
                                           Details = None\<rparr>\<rparr>),
      Aborted = True, Done = False\<rparr>
   \<and> runChain [AuthMiddleware demoLib demoManager now0, okHandler]
       (emptyContext\<lparr>Authorization := Some ''bearer garbage''\<rparr>) =
     \<lparr>Authorization = Some ''bearer garbage'', Keys = Map.empty,
      Written = Some (401, Some \<lparr>Success = False, Message = [], Data = None,
                               Err = Some \<lparr>Code = ''UNAUTHORIZED'',
                                           ErrMessage = ''Invalid or expired token'',
                                           Details = None\<rparr>\<rparr>),
      Aborted = True, Done = False\<rparr>"
proof -
  have n: "\<not> Aborted (emptyContext\<lparr>Authorization := h\<rparr>)"
    "\<not> Done (emptyContext\<lparr>Authorization := h\<rparr>)" for h
    by (simp_all add: emptyContext_def)
  have n0: "\<not> Aborted emptyContext" "\<not> Done emptyContext"
    by (simp_all add: emptyContext_def)
  note run_defs = AuthMiddleware_def GetHeader_def SplitN_def ToLower_def toLowerChar_def
    Set_def okHandler_def emptyContext_def response_defs StatusUnauthorized_def
    ErrCodeUnauthorized_def
  have t1: "runChain [AuthMiddleware demoLib demoManager now0, okHandler]
       (emptyContext\<lparr>Authorization := Some ''BeArEr HS256.A.test-secret/HS256A''\<rparr>) =
     \<lparr>Authorization = Some ''BeArEr HS256.A.test-secret/HS256A'',
      Keys = [''user_id'' \<mapsto> AnyUint 1, ''user_email'' \<mapsto> AnyString ''alice@example.com''],
      Written = Some (200, None), Aborted = False, Done = True\<rparr>"
    by (simp add: run_defs validate_A newClaims_def still_def)
  have t2: "runChain [AuthMiddleware demoLib demoManager now0, okHandler] emptyContext =
     \<lparr>Authorization = None, Keys = Map.empty,
      Written = Some (401, Some \<lparr>Success = False, Message = [], Data = None,
                               Err = Some \<lparr>Code = ''UNAUTHORIZED'',
                                           ErrMessage = ''Authorization header required'',
                                           Details = None\<rparr>\<rparr>),
      Aborted = True, Done = False\<rparr>"
    by (simp add: run_defs)
  have t3: "runChain [AuthMiddleware demoLib demoManager now0, okHandler]
       (emptyContext\<lparr>Authorization := Some ''Bearer''\<rparr>) =
     \<lparr>Authorization = Some ''Bearer'', Keys = Map.empty,
      Written = Some (401, Some \<lparr>Success = False, Message = [], Data = None,
                               Err = Some \<lparr>Code = ''UNAUTHORIZED'',
                                           ErrMessage =
                                             ''Invalid authorization format. Use: Bearer <token>'',
                                           Details = None\<rparr>\<rparr>),
      Aborted = True, Done = False\<rparr>"
    by (simp add: run_defs)
  have t4: "runChain [AuthMiddleware demoLib demoManager now0, okHandler]
       (emptyContext\<lparr>Authorization := Some ''bearer garbage''\<rparr>) =
     \<lparr>Authorization = Some ''bearer garbage'', Keys = Map.empty,
      Written = Some (401, Some \<lparr>Success = False, Message = [], Data = None,
                               Err = Some \<lparr>Code = ''UNAUTHORIZED'',
                                           ErrMessage = ''Invalid or expired token'',
                                           Details = None\<rparr>\<rparr>),
      Aborted = True, Done = False\<rparr>"
    by (simp add: run_defs malformed_garbage)
  have by_theorem: "runChain [AuthMiddleware demoLib demoManager now0, okHandler]
       (emptyContext\<lparr>Authorization := Some ''BeArEr HS256.A.test-secret/HS256A''\<rparr>) =
     \<lparr>Authorization = Some ''BeArEr HS256.A.test-secret/HS256A'',
      Keys = [''user_id'' \<mapsto> AnyUint 1, ''user_email'' \<mapsto> AnyString ''alice@example.com''],
      Written = Some (200, None), Aborted = False, Done = True\<rparr>"
    using gate_contract [where c = "emptyContext\<lparr>Authorization := Some ''BeArEr HS256.A.test-secret/HS256A''\<rparr>" and L = demoLib
        and j = demoManager and now = now0 and rest = "[okHandler]", OF n]
    by (simp add: validate_A newClaims_def still_def emptyContext_def okHandler_def)
  show ?thesis using n0 t1 t2 t3 t4 by_theorem by blast
qed

text \<open>
  Claim C2, as the program has it. A token string with any of the four causes makes
  \<open>ValidateToken\<close> fail, with the error of the library for that cause; the middleware
  drops that error and answers every such request with the one response
  \<open>Invalid or expired token\<close> and status 401, so that the client of the gate cannot tell
  the causes apart.
\<close>

theorem gate_hides_cause:
  assumes "has_cause L j now tokenString cause"
    and "ToLower scheme = ''bearer''"
    and "Authorization c = Some (scheme @ '' '' @ tokenString)"
  shows "(\<exists>err. ValidateToken L j now tokenString = Inl err)
       \<and> AuthMiddleware L j now next c = Abort (UnauthorizedError c ''Invalid or expired token'')"
proof -
  from cause_rejects [OF assms(1)] obtain err where
    v: "ValidateToken L j now tokenString = Inl err" ..
  have h: "GetHeader c = scheme @ CHR '' '' # tokenString"
    using assms(3) by (simp add: GetHeader_def)
  have sp: "SplitN (scheme @ CHR '' '' # tokenString) = [scheme, tokenString]"
    using bearer_no_space [OF assms(2)] by (rule SplitN_space)
  have "AuthMiddleware L j now next c = Abort (UnauthorizedError c ''Invalid or expired token'')"
    by (simp add: AuthMiddleware_def h sp assms(2) v)
  with v show ?thesis by blast
qed

lemma expired_A:
  "ValidateToken demoLib demoManager (now0 + 7200000000000) ''HS256.A.test-secret/HS256A'' =
     Inl (Jwt (ErrTokenInvalidClaims [ErrTokenExpired]))"
  by (simp add: jwt_defs demo_defs)

text \<open>
  The run: alice's token two hours after it was issued, and a string that is no token,
  each under the scheme \<open>Bearer\<close>. The gate gives both the same answer.
\<close>

theorem gate_hides_cause_witness:
  "has_cause demoLib demoManager (now0 + 7200000000000) ''HS256.A.test-secret/HS256A'' OutsideWindow
   \<and> has_cause demoLib demoManager (now0 + 7200000000000) ''garbage'' Malformed
   \<and> ToLower ''Bearer'' = ''bearer''
   \<and> Written (AuthMiddleware demoLib demoManager (now0 + 7200000000000) (\<lambda>c. c)
        (emptyContext\<lparr>Authorization := Some ''Bearer HS256.A.test-secret/HS256A''\<rparr>)) =
     Written (AuthMiddleware demoLib demoManager (now0 + 7200000000000) (\<lambda>c. c)
        (emptyContext\<lparr>Authorization := Some ''Bearer garbage''\<rparr>))
   \<and> Written (AuthMiddleware demoLib demoManager (now0 + 7200000000000) (\<lambda>c. c)
        (emptyContext\<lparr>Authorization := Some ''Bearer garbage''\<rparr>)) =
     Some (401, Some \<lparr>Success = False, Message = [], Data = None,
                      Err = Some \<lparr>Code = ''UNAUTHORIZED'',
                                  ErrMessage = ''Invalid or expired token'',
                                  Details = None\<rparr>\<rparr>)"
proof -
  have h1: "has_cause demoLib demoManager (now0 + 7200000000000)
              ''HS256.A.test-secret/HS256A'' OutsideWindow"
    by (simp add: demo_defs)
  have h1': "has_cause demoLib demoManager (now0 + 7200000000000) ''garbage'' Malformed"
    by (simp add: demo_defs)
  have h2: "ToLower ''Bearer'' = ''bearer''"
    by (simp add: ToLower_def toLowerChar_def)
  have h3: "Authorization (emptyContext\<lparr>Authorization := Some ''Bearer HS256.A.test-secret/HS256A''\<rparr>)
              = Some (''Bearer'' @ '' '' @ ''HS256.A.test-secret/HS256A'')"
    by simp
  have h3': "Authorization (emptyContext\<lparr>Authorization := Some ''Bearer garbage''\<rparr>)
              = Some (''Bearer'' @ '' '' @ ''garbage'')"
    by simp
  have w: "Written (Abort (UnauthorizedError c ''Invalid or expired token'')) =
     Some (401, Some \<lparr>Success = False, Message = [], Data = None,
                      Err = Some \<lparr>Code = ''UNAUTHORIZED'',
                                  ErrMessage = ''Invalid or expired token'',
                                  Details = None\<rparr>\<rparr>)" for c
    by (simp add: response_defs StatusUnauthorized_def ErrCodeUnauthorized_def)
  show ?thesis
    using gate_hides_cause [OF h1 h2 h3, of "\<lambda>c. c"] gate_hides_cause [OF h1' h2 h3', of "\<lambda>c. c"]
      h1 h1' h2
    by (simp add: w)
qed

text \<open>
  Against claim C2 as stated: the caller of \<open>ValidateToken\<close> receives a different error
  for each of the four causes.
\<close>

theorem verify_reveals_cause_counterexample:
  "has_cause demoLib demoManager now0 ''garbage'' Malformed
   \<and> ValidateToken demoLib demoManager now0 ''garbage'' = Inl (Jwt ErrTokenMalformed)
   \<and> has_cause demoLib demoManager now0 ''RS256.A.test-secret/RS256A'' WrongFamily
   \<and> ValidateToken demoLib demoManager now0 ''RS256.A.test-secret/RS256A'' =
       Inl (Jwt (ErrTokenUnverifiable (Some ''invalid signing method'')))
   \<and> has_cause demoLib demoManager now0 ''HS256.A.forged'' SignatureMismatch
   \<and> ValidateToken demoLib demoManager now0 ''HS256.A.forged'' =
       Inl (Jwt ErrTokenSignatureInvalid)
   \<and> has_cause demoLib demoManager (now0 + 7200000000000) ''HS256.A.test-secret/HS256A''
       OutsideWindow
   \<and> ValidateToken demoLib demoManager (now0 + 7200000000000) ''HS256.A.test-secret/HS256A'' =
       Inl (Jwt (ErrTokenInvalidClaims [ErrTokenExpired]))
   \<and> ValidateToken demoLib demoManager now0 ''garbage'' \<noteq>
       ValidateToken demoLib demoManager (now0 + 7200000000000) ''HS256.A.test-secret/HS256A''"
proof -
  have c1: "has_cause demoLib demoManager now0 ''garbage'' Malformed"
    by (simp add: demo_defs)
  have c2: "has_cause demoLib demoManager now0 ''RS256.A.test-secret/RS256A'' WrongFamily"
    by (simp add: demo_defs GetSigningMethod_def)
  have v2: "ValidateToken demoLib demoManager now0 ''RS256.A.test-secret/RS256A'' =
       Inl (Jwt (ErrTokenUnverifiable (Some ''invalid signing method'')))"
    by (simp add: jwt_defs demo_defs)
  have c3: "has_cause demoLib demoManager now0 ''HS256.A.forged'' SignatureMismatch"
    by (simp add: demo_defs)
  have v3: "ValidateToken demoLib demoManager now0 ''HS256.A.forged'' =
       Inl (Jwt ErrTokenSignatureInvalid)"
    by (simp add: jwt_defs demo_defs)
  have c4: "has_cause demoLib demoManager (now0 + 7200000000000)
              ''HS256.A.test-secret/HS256A'' OutsideWindow"
    by (simp add: demo_defs)
  show ?thesis
    using c1 c2 c3 c4 v2 v3 malformed_garbage expired_A by simp
qed

end
